theory Spec2Isabelle
  imports Main
begin

section \<open>The persistent store (Prisma client, as the gateway uses it)\<close>

text \<open>
  The gateway of \<^verbatim>\<open>src/server/socket.ts\<close> talks to six tables. A table is the list of its
  rows in insertion order; \<^verbatim>\<open>findFirst\<close> returns the first row that passes the filter.
  Times are natural numbers (milliseconds of \<^verbatim>\<open>new Date()\<close>).
\<close>

record user_row =
  u_id :: string
  u_email :: string
  u_username :: string
  u_isAnonymous :: bool
  u_anonymousId :: "string option"
  u_avatar :: "string option"
  u_isAdmin :: bool

record session_row =
  ss_id :: string
  ss_token :: string
  ss_userId :: string
  ss_expiresAt :: nat
  ss_lastUsed :: nat

record member_row =
  mb_userId :: string
  mb_serverId :: string

record channel_row =
  ch_id :: string
  ch_serverId :: string
  ch_name :: string
  ch_type :: string
  ch_topic :: "string option"
  ch_position :: int
  ch_updatedAt :: nat

text \<open>
  Modelled from the spec: the schema file is not among the sources. Section 3 of the
  specification gives a message the columns id, content, type, authorId, channelId,
  createdAt and a reaction the columns id, emoji, authorId, messageId; the author column
  (\<^verbatim>\<open>userId\<close> in the code) is mandatory (the client interface of
  \<^verbatim>\<open>src/unnamed/part_003\<close> types it \<^verbatim>\<open>userId: string\<close>). The code reads a message with
  its user and its reactions and a reaction with its user (lines 149-170, 204-215, 280-287):
  these are relations of the schema, so the store refuses a message whose user or channel
  does not exist and a reaction whose user or message does not exist.
\<close>

record message_row =
  ms_id :: string
  ms_content :: string
  ms_type :: string
  ms_userId :: string
  ms_channelId :: string
  ms_createdAt :: nat

record reaction_row =
  rc_id :: string
  rc_userId :: string
  rc_messageId :: string
  rc_emoji :: string

record database =
  users :: "user_row list"
  sessions :: "session_row list"
  members :: "member_row list"
  channels :: "channel_row list"
  messages :: "message_row list"
  reactions :: "reaction_row list"

text \<open>
  A filter value in a Prisma \<^verbatim>\<open>where\<close> clause: a value that is \<^verbatim>\<open>undefined\<close> leaves the
  column unconstrained, a defined value must be equal to the column.
\<close>

fun matches :: "'a option \<Rightarrow> 'a \<Rightarrow> bool" where
  "matches None v = True"
| "matches (Some x) v = (x = v)"

text \<open>JavaScript truthiness of an optional string: \<^verbatim>\<open>undefined\<close> and \<^verbatim>\<open>''\<close> are falsy.\<close>

fun truthy :: "string option \<Rightarrow> bool" where
  "truthy None = False"
| "truthy (Some s) = (s \<noteq> [])"

section \<open>Sockets, rooms and emitted events\<close>

text \<open>
  \<^verbatim>\<open>SocketUser\<close> (lines 6-12). The field \<^verbatim>\<open>userId\<close> is optional here because a read of
  a property that the attached object does not have yields \<^verbatim>\<open>undefined\<close>.
\<close>

record socket_user =
  userId :: "string option"
  username :: string
  isAnonymous :: bool
  anonymousId :: "string option"
  isAdmin :: bool

text \<open>
  \<^verbatim>\<open>AuthenticatedSocket\<close> (lines 14-18) with the three fields of socket.io's \<^verbatim>\<open>Socket\<close>
  that matter for routing: its id, the set of rooms it has joined, and whether the
  transport is still connected.
\<close>

record socket =
  sid :: nat
  user :: socket_user
  currentServer :: "string option"
  currentChannel :: "string option"
  rooms :: "string set"
  connected :: bool

type_synonym channel_info = "string \<times> string \<times> string \<times> string option \<times> int"

type_synonym author = "string \<times> string \<times> bool \<times> string option \<times> string option"

type_synonym reaction_out = "reaction_row \<times> (string \<times> string) option"

text \<open>
  A message as it is sent: the row with its author (the \<^verbatim>\<open>include: { user: { select } }\<close>
  of lines 150-158 and 205-213). Attachment rows are joined into the payload read-only and
  take no part in routing; they are left out of the payload.
\<close>

type_synonym message_out = "message_row \<times> author option"

datatype event =
    Error string
  | ServerChannels "channel_info list"
  | ChannelMessages "(message_out \<times> reaction_out list) list"
  | UserJoined "string option" "string option"
  | NewMessage message_out
  | UserTyping "string option" "string option"
  | UserStopTyping "string option"
  | ReactionsUpdated string "reaction_out list"
  | UserLeft "string option"

text \<open>
  The gateway: the store, the sockets that passed the middleware, the log of emitted events
  (each with the set of sockets it was delivered to, oldest first), and the log of refused
  handshakes (socket id and the message of the error passed to \<^verbatim>\<open>next\<close>).
\<close>

record gateway =
  db :: database
  socks :: "socket list"
  outbox :: "(nat set \<times> event) list"
  refused :: "(nat \<times> string) list"

definition sock_of :: "gateway \<Rightarrow> nat \<Rightarrow> socket option" where
  "sock_of g c = find (\<lambda>s. sid s = c) (socks g)"

definition upd_sock :: "nat \<Rightarrow> (socket \<Rightarrow> socket) \<Rightarrow> gateway \<Rightarrow> gateway" where
  "upd_sock c f g = g\<lparr>socks := map (\<lambda>s. if sid s = c then f s else s) (socks g)\<rparr>"

definition server_room :: "string \<Rightarrow> string" where
  "server_room serverId = ''server:'' @ serverId"

definition channel_room :: "string \<Rightarrow> string" where
  "channel_room channelId = ''channel:'' @ channelId"

text \<open>The template string \<^verbatim>\<open>`channel:${socket.currentChannel}`\<close> on the field as it is.\<close>

definition current_room :: "string option \<Rightarrow> string" where
  "current_room cur = (case cur of None \<Rightarrow> ''channel:undefined'' | Some ch \<Rightarrow> channel_room ch)"

text \<open>Who receives: socket.io delivers to connected sockets only.\<close>

definition in_room :: "gateway \<Rightarrow> string \<Rightarrow> nat set" where
  "in_room g r = set (map sid (filter (\<lambda>s. connected s \<and> r \<in> rooms s) (socks g)))"

definition all_connected :: "gateway \<Rightarrow> nat set" where
  "all_connected g = set (map sid (filter connected (socks g)))"

definition emit :: "nat set \<Rightarrow> event \<Rightarrow> gateway \<Rightarrow> gateway" where
  "emit rcpt ev g = g\<lparr>outbox := outbox g @ [(rcpt, ev)]\<rparr>"

text \<open>\<^verbatim>\<open>socket.emit\<close>: to this socket alone.\<close>

definition emit_self :: "nat \<Rightarrow> event \<Rightarrow> gateway \<Rightarrow> gateway" where
  "emit_self c ev g = emit (all_connected g \<inter> {c}) ev g"

text \<open>\<^verbatim>\<open>socket.to(room).emit\<close>: to the room without this socket.\<close>

definition emit_others :: "nat \<Rightarrow> string \<Rightarrow> event \<Rightarrow> gateway \<Rightarrow> gateway" where
  "emit_others c r ev g = emit (in_room g r - {c}) ev g"

text \<open>\<^verbatim>\<open>io.to(room).emit\<close>: to the whole room.\<close>

definition emit_room :: "string \<Rightarrow> event \<Rightarrow> gateway \<Rightarrow> gateway" where
  "emit_room r ev g = emit (in_room g r) ev g"

text \<open>\<^verbatim>\<open>io.emit\<close>: to every connected socket.\<close>

definition emit_all :: "event \<Rightarrow> gateway \<Rightarrow> gateway" where
  "emit_all ev g = emit (all_connected g) ev g"

text \<open>\<^verbatim>\<open>socket.user.isAnonymous ? socket.user.anonymousId : socket.user.username\<close>\<close>

definition display_name :: "socket_user \<Rightarrow> string option" where
  "display_name u = (if isAnonymous u then anonymousId u else Some (username u))"

section \<open>Queries\<close>

definition select_channel :: "channel_row \<Rightarrow> channel_info" where
  "select_channel ch = (ch_id ch, ch_name ch, ch_type ch, ch_topic ch, ch_position ch)"

definition author_of :: "database \<Rightarrow> string \<Rightarrow> author option" where
  "author_of d uid =
     map_option (\<lambda>u. (u_id u, u_username u, u_isAnonymous u, u_anonymousId u, u_avatar u))
       (find (\<lambda>u. u_id u = uid) (users d))"

definition reaction_out :: "database \<Rightarrow> reaction_row \<Rightarrow> reaction_out" where
  "reaction_out d r =
     (r, map_option (\<lambda>u. (u_id u, u_username u)) (find (\<lambda>u. u_id u = rc_userId r) (users d)))"

definition reactions_of :: "database \<Rightarrow> string \<Rightarrow> reaction_out list" where
  "reactions_of d messageId =
     map (reaction_out d) (filter (\<lambda>r. rc_messageId r = messageId) (reactions d))"

definition hydrate :: "database \<Rightarrow> message_row \<Rightarrow> message_out" where
  "hydrate d m = (m, author_of d (ms_userId m))"

text \<open>
  Lines 147-173: the messages of the channel, \<^verbatim>\<open>orderBy: { createdAt: 'desc' }\<close>,
  \<^verbatim>\<open>take: 50\<close>. The store sorts by descending creation time and does nothing else: rows
  with the same creation time come in the order in which the table holds them
  (\<open>sort_key\<close> is a stable sort).
\<close>

definition newest_first :: "database \<Rightarrow> string \<Rightarrow> message_row list" where
  "newest_first d channelId =
     sort_key (\<lambda>m. - int (ms_createdAt m)) (filter (\<lambda>m. ms_channelId m = channelId) (messages d))"

definition recent_messages :: "database \<Rightarrow> string \<Rightarrow> message_row list" where
  "recent_messages d channelId = take 50 (newest_first d channelId)"

text \<open>Lines 81-86: the membership row of this user in this server.\<close>

definition find_member :: "database \<Rightarrow> string option \<Rightarrow> string \<Rightarrow> member_row option" where
  "find_member d uid serverId =
     find (\<lambda>m. matches uid (mb_userId m) \<and> mb_serverId m = serverId) (members d)"

text \<open>Lines 120-131: the channel, if its server has a membership row of this user.\<close>

definition find_channel :: "database \<Rightarrow> string option \<Rightarrow> string \<Rightarrow> channel_row option" where
  "find_channel d uid channelId =
     find (\<lambda>ch. ch_id ch = channelId \<and>
                (\<exists>m \<in> set (members d). mb_serverId m = ch_serverId ch \<and> matches uid (mb_userId m)))
       (channels d)"

text \<open>Lines 97-107: the channels of the server by ascending position.\<close>

definition server_channels :: "database \<Rightarrow> string \<Rightarrow> channel_info list" where
  "server_channels d serverId =
     map select_channel (sort_key ch_position (filter (\<lambda>ch. ch_serverId ch = serverId) (channels d)))"

text \<open>Lines 253-259: the reaction row of this user, message and emoji.\<close>

definition find_reaction :: "database \<Rightarrow> string option \<Rightarrow> string \<Rightarrow> string \<Rightarrow> reaction_row option" where
  "find_reaction d uid messageId emoji =
     find (\<lambda>r. matches uid (rc_userId r) \<and> rc_messageId r = messageId \<and> rc_emoji r = emoji)
       (reactions d)"

section \<open>What the environment decides at an awaited call\<close>

text \<open>
  Every \<^verbatim>\<open>await\<close> of a store call suspends the handler. When the handler resumes, the
  environment has decided whether the call threw for a reason of its own (connection lost,
  timeout), what the clock shows, and which id the store gives to a row it creates.
\<close>

record world =
  threw :: bool
  now :: nat
  new_id :: string

section \<open>Suspended handlers\<close>

text \<open>
  A handler that is waiting for a store call, named by the call it waits for, with the
  values its continuation has captured. The socket is given by its id; the continuation
  reads the socket's fields again when it resumes.
\<close>

datatype task =
    A_Session nat string
  | A_Delete nat string
  | A_Update nat session_row "user_row option"
  | A_User nat string
  | JS_Member nat string
  | JS_Channels nat string
  | JC_Channel nat string
  | JC_Messages nat string
  | SM_Create nat string string string
  | SM_Touch nat "string option"
  | AR_Find nat string string
  | AR_Delete nat string string
  | AR_Create nat string string
  | AR_List nat string

section \<open>The authentication middleware (socket.ts lines 38-72, validateSession)\<close>

definition reject :: "nat \<Rightarrow> string \<Rightarrow> gateway \<Rightarrow> gateway" where
  "reject c msg g = g\<lparr>refused := refused g @ [(c, msg)]\<rparr>"

text \<open>
  Line 66 stores the selected row as \<^verbatim>\<open>socket.user\<close>. The row has the keys
  \<^verbatim>\<open>id, username, isAnonymous, anonymousId, isAdmin\<close> (lines 53-59): it has no key
  \<^verbatim>\<open>userId\<close>, so what the handlers read as \<^verbatim>\<open>socket.user.userId\<close> is \<^verbatim>\<open>undefined\<close>.
  The socket starts in no server, in no channel and in no room, and is connected.
\<close>

definition admit :: "nat \<Rightarrow> user_row \<Rightarrow> gateway \<Rightarrow> gateway" where
  "admit c fullUser g =
     g\<lparr>socks := socks g @
        [\<lparr>sid = c,
          user = \<lparr>userId = None, username = u_username fullUser,
                  isAnonymous = u_isAnonymous fullUser, anonymousId = u_anonymousId fullUser,
                  isAdmin = u_isAdmin fullUser\<rparr>,
          currentServer = None, currentChannel = None, rooms = {}, connected = True\<rparr>]\<rparr>"

text \<open>
  Lines 40-45 and validateSession lines 75-83. \<^verbatim>\<open>verifyToken\<close> is jsonwebtoken's check of
  the token under the configured secret, issuer and audience; it throws on failure and
  validateSession turns every throw into \<^verbatim>\<open>null\<close>.
\<close>

definition handshake :: "(string \<Rightarrow> bool) \<Rightarrow> nat \<Rightarrow> string option \<Rightarrow> gateway \<Rightarrow> gateway \<times> task option" where
  "handshake verifyToken c token g =
     (case token of
        None \<Rightarrow> (reject c ''Authentication error'' g, None)
      | Some t \<Rightarrow>
          if \<not> truthy token then (reject c ''Authentication error'' g, None)
          else if \<not> verifyToken t then (reject c ''Invalid session'' g, None)
          else (g, Some (A_Session c t)))"

text \<open>validateSession lines 80-97, when \<^verbatim>\<open>session.findUnique\<close> (with its user) has resolved.\<close>

definition validateSession_findUnique :: "world \<Rightarrow> nat \<Rightarrow> string \<Rightarrow> gateway \<Rightarrow> gateway \<times> task option" where
  "validateSession_findUnique w c t g =
     (if threw w then (reject c ''Invalid session'' g, None)
      else case find (\<lambda>s. ss_token s = t) (sessions (db g)) of
        None \<Rightarrow> (reject c ''Invalid session'' g, None)
      | Some s \<Rightarrow>
          if ss_expiresAt s < now w then (g, Some (A_Delete c (ss_id s)))
          else (g, Some (A_Update c s (find (\<lambda>u. u_id u = ss_userId s) (users (db g))))))"

text \<open>validateSession lines 88-90: the expired session is deleted, the result is \<^verbatim>\<open>null\<close>.\<close>

definition validateSession_delete :: "world \<Rightarrow> nat \<Rightarrow> string \<Rightarrow> gateway \<Rightarrow> gateway \<times> task option" where
  "validateSession_delete w c sessionId g =
     (if threw w \<or> sessionId \<notin> ss_id ` set (sessions (db g))
      then (reject c ''Invalid session'' g, None)
      else (reject c ''Invalid session''
              (g\<lparr>db := (db g)\<lparr>sessions := filter (\<lambda>s. ss_id s \<noteq> sessionId) (sessions (db g))\<rparr>\<rparr>),
            None))"

text \<open>
  validateSession lines 94-105 and socket.ts lines 46-51: the session is stamped, the payload
  is built from the user loaded with the session (a missing user makes
  \<^verbatim>\<open>session.user.id\<close> throw, which validateSession turns into \<^verbatim>\<open>null\<close>), and the
  middleware asks for the full user.
\<close>

definition validateSession_update :: "world \<Rightarrow> nat \<Rightarrow> session_row \<Rightarrow> user_row option \<Rightarrow> gateway \<Rightarrow> gateway \<times> task option" where
  "validateSession_update w c s usr g =
     (if threw w \<or> ss_id s \<notin> ss_id ` set (sessions (db g))
      then (reject c ''Invalid session'' g, None)
      else
        let g' = g\<lparr>db := (db g)\<lparr>sessions :=
                   map (\<lambda>x. if ss_id x = ss_id s then x\<lparr>ss_lastUsed := now w\<rparr> else x)
                     (sessions (db g))\<rparr>\<rparr>
        in case usr of
             None \<Rightarrow> (reject c ''Invalid session'' g', None)
           | Some u \<Rightarrow> (g', Some (A_User c (u_id u))))"

text \<open>Lines 51-71, when \<^verbatim>\<open>user.findUnique\<close> has resolved.\<close>

definition auth_findUnique :: "world \<Rightarrow> nat \<Rightarrow> string \<Rightarrow> gateway \<Rightarrow> gateway \<times> task option" where
  "auth_findUnique w c uid g =
     (if threw w then (reject c ''Authentication failed'' g, None)
      else case find (\<lambda>u. u_id u = uid) (users (db g)) of
        None \<Rightarrow> (reject c ''User not found'' g, None)
      | Some fullUser \<Rightarrow> (admit c fullUser g, None))"

section \<open>join-server (lines 78-114)\<close>

definition join_server_findFirst :: "world \<Rightarrow> socket \<Rightarrow> string \<Rightarrow> gateway \<Rightarrow> gateway \<times> task option" where
  "join_server_findFirst w s serverId g =
     (if threw w then (emit_self (sid s) (Error ''Failed to join server'') g, None)
      else case find_member (db g) (userId (user s)) serverId of
        None \<Rightarrow> (emit_self (sid s) (Error ''Not a member of this server'') g, None)
      | Some member \<Rightarrow>
          (upd_sock (sid s)
             (\<lambda>x. x\<lparr>currentServer := Some serverId,
                    rooms := insert (server_room serverId) (rooms x)\<rparr>) g,
           Some (JS_Channels (sid s) serverId)))"

definition join_server_findMany :: "world \<Rightarrow> socket \<Rightarrow> string \<Rightarrow> gateway \<Rightarrow> gateway \<times> task option" where
  "join_server_findMany w s serverId g =
     (if threw w then (emit_self (sid s) (Error ''Failed to join server'') g, None)
      else (emit_self (sid s) (ServerChannels (server_channels (db g) serverId)) g, None))"

section \<open>join-channel (lines 117-187)\<close>

text \<open>
  Lines 138-144, one synchronous block: leave the previous channel's room if
  \<^verbatim>\<open>currentChannel\<close> is truthy, set \<^verbatim>\<open>currentChannel\<close>, join the new room.
\<close>

definition switch_channel :: "string \<Rightarrow> socket \<Rightarrow> socket" where
  "switch_channel channelId x =
     (let left = (if truthy (currentChannel x)
                  then rooms x - {current_room (currentChannel x)} else rooms x)
      in x\<lparr>currentChannel := Some channelId, rooms := insert (channel_room channelId) left\<rparr>)"

definition join_channel_findFirst :: "world \<Rightarrow> socket \<Rightarrow> string \<Rightarrow> gateway \<Rightarrow> gateway \<times> task option" where
  "join_channel_findFirst w s channelId g =
     (if threw w then (emit_self (sid s) (Error ''Failed to join channel'') g, None)
      else case find_channel (db g) (userId (user s)) channelId of
        None \<Rightarrow> (emit_self (sid s) (Error ''Channel not found or access denied'') g, None)
      | Some channel \<Rightarrow>
          (upd_sock (sid s) (switch_channel channelId) g, Some (JC_Messages (sid s) channelId)))"

definition channel_history :: "database \<Rightarrow> string \<Rightarrow> (message_out \<times> reaction_out list) list" where
  "channel_history d channelId =
     rev (map (\<lambda>m. (hydrate d m, reactions_of d (ms_id m))) (recent_messages d channelId))"

definition join_channel_findMany :: "world \<Rightarrow> socket \<Rightarrow> string \<Rightarrow> gateway \<Rightarrow> gateway \<times> task option" where
  "join_channel_findMany w s channelId g =
     (if threw w then (emit_self (sid s) (Error ''Failed to join channel'') g, None)
      else
        (emit_others (sid s) (channel_room channelId)
           (UserJoined (userId (user s)) (display_name (user s)))
           (emit_self (sid s) (ChannelMessages (channel_history (db g) channelId)) g),
         None))"

section \<open>send-message (lines 190-230)\<close>

text \<open>
  Lines 197-225, when \<^verbatim>\<open>message.create\<close> has resolved. The call throws by itself when the
  mandatory \<^verbatim>\<open>userId\<close> is \<^verbatim>\<open>undefined\<close>, when the id is taken, and when the user or the
  channel of the new row does not exist. The channel of the row is the value that line 202
  read before the await; the room of the broadcast (line 219) and the channel to touch (line
  223) are read from \<^verbatim>\<open>socket.currentChannel\<close> after the await.
\<close>

definition send_message_create :: "world \<Rightarrow> socket \<Rightarrow> string \<Rightarrow> string \<Rightarrow> string \<Rightarrow> gateway \<Rightarrow> gateway \<times> task option" where
  "send_message_create w s content type channelId g =
     (case userId (user s) of
        None \<Rightarrow> (emit_self (sid s) (Error ''Failed to send message'') g, None)
      | Some uid \<Rightarrow>
          if threw w \<or> new_id w \<in> ms_id ` set (messages (db g))
             \<or> uid \<notin> u_id ` set (users (db g)) \<or> channelId \<notin> ch_id ` set (channels (db g))
          then (emit_self (sid s) (Error ''Failed to send message'') g, None)
          else
            let message = \<lparr>ms_id = new_id w, ms_content = content, ms_type = type,
                            ms_userId = uid, ms_channelId = channelId, ms_createdAt = now w\<rparr>;
                g' = g\<lparr>db := (db g)\<lparr>messages := messages (db g) @ [message]\<rparr>\<rparr>
            in (emit_room (current_room (currentChannel s)) (NewMessage (hydrate (db g') message)) g',
                Some (SM_Touch (sid s) (currentChannel s))))"

definition send_message_update :: "world \<Rightarrow> socket \<Rightarrow> string option \<Rightarrow> gateway \<Rightarrow> gateway \<times> task option" where
  "send_message_update w s cur g =
     (case cur of
        None \<Rightarrow> (emit_self (sid s) (Error ''Failed to send message'') g, None)
      | Some channelId \<Rightarrow>
          if threw w \<or> channelId \<notin> ch_id ` set (channels (db g))
          then (emit_self (sid s) (Error ''Failed to send message'') g, None)
          else (g\<lparr>db := (db g)\<lparr>channels :=
                     map (\<lambda>ch. if ch_id ch = channelId then ch\<lparr>ch_updatedAt := now w\<rparr> else ch)
                       (channels (db g))\<rparr>\<rparr>,
                None))"

section \<open>add-reaction (lines 251-298)\<close>

definition add_reaction_findFirst :: "world \<Rightarrow> socket \<Rightarrow> string \<Rightarrow> string \<Rightarrow> gateway \<Rightarrow> gateway \<times> task option" where
  "add_reaction_findFirst w s messageId emoji g =
     (if threw w then (emit_self (sid s) (Error ''Failed to add reaction'') g, None)
      else case find_reaction (db g) (userId (user s)) messageId emoji of
        Some existingReaction \<Rightarrow> (g, Some (AR_Delete (sid s) messageId (rc_id existingReaction)))
      | None \<Rightarrow> (g, Some (AR_Create (sid s) messageId emoji)))"

definition add_reaction_delete :: "world \<Rightarrow> socket \<Rightarrow> string \<Rightarrow> string \<Rightarrow> gateway \<Rightarrow> gateway \<times> task option" where
  "add_reaction_delete w s messageId reactionId g =
     (if threw w \<or> reactionId \<notin> rc_id ` set (reactions (db g))
      then (emit_self (sid s) (Error ''Failed to add reaction'') g, None)
      else (g\<lparr>db := (db g)\<lparr>reactions := filter (\<lambda>r. rc_id r \<noteq> reactionId) (reactions (db g))\<rparr>\<rparr>,
            Some (AR_List (sid s) messageId)))"

text \<open>
  Lines 268-274, when \<^verbatim>\<open>reaction.create\<close> has resolved. The call throws by itself when the
  mandatory \<^verbatim>\<open>userId\<close> is \<^verbatim>\<open>undefined\<close>, when the id is taken, and when the user or the
  message of the new row does not exist.
\<close>

definition add_reaction_create :: "world \<Rightarrow> socket \<Rightarrow> string \<Rightarrow> string \<Rightarrow> gateway \<Rightarrow> gateway \<times> task option" where
  "add_reaction_create w s messageId emoji g =
     (case userId (user s) of
        None \<Rightarrow> (emit_self (sid s) (Error ''Failed to add reaction'') g, None)
      | Some uid \<Rightarrow>
          if threw w \<or> new_id w \<in> rc_id ` set (reactions (db g))
             \<or> uid \<notin> u_id ` set (users (db g)) \<or> messageId \<notin> ms_id ` set (messages (db g))
          then (emit_self (sid s) (Error ''Failed to add reaction'') g, None)
          else (g\<lparr>db := (db g)\<lparr>reactions := reactions (db g) @
                     [\<lparr>rc_id = new_id w, rc_userId = uid, rc_messageId = messageId,
                       rc_emoji = emoji\<rparr>]\<rparr>\<rparr>,
                Some (AR_List (sid s) messageId)))"

definition add_reaction_findMany :: "world \<Rightarrow> socket \<Rightarrow> string \<Rightarrow> gateway \<Rightarrow> gateway \<times> task option" where
  "add_reaction_findMany w s messageId g =
     (if threw w then (emit_self (sid s) (Error ''Failed to add reaction'') g, None)
      else (emit_all (ReactionsUpdated messageId (reactions_of (db g) messageId)) g, None))"

section \<open>The event loop\<close>

datatype wire =
    JoinServer string
  | JoinChannel string
  | SendMessage string "string option"
  | TypingStart
  | TypingStop
  | AddReaction string string

text \<open>
  A wire event arrives on socket \<open>c\<close>: the handler runs up to its first \<^verbatim>\<open>await\<close> (or to
  its end). \<^verbatim>\<open>send-message\<close> evaluates the arguments of \<^verbatim>\<open>message.create\<close>, among them
  \<^verbatim>\<open>socket.currentChannel\<close> and \<^verbatim>\<open>data.type || 'TEXT'\<close>, before it suspends.
\<close>

definition start :: "nat \<Rightarrow> wire \<Rightarrow> gateway \<Rightarrow> gateway \<times> task option" where
  "start c ev g =
     (case sock_of g c of
        None \<Rightarrow> (g, None)
      | Some s \<Rightarrow>
         (case ev of
            JoinServer serverId \<Rightarrow> (g, Some (JS_Member c serverId))
          | JoinChannel channelId \<Rightarrow> (g, Some (JC_Channel c channelId))
          | SendMessage content type \<Rightarrow>
              (case currentChannel s of
                 None \<Rightarrow> (emit_self c (Error ''Not in a channel'') g, None)
               | Some channelId \<Rightarrow>
                   if \<not> truthy (currentChannel s)
                   then (emit_self c (Error ''Not in a channel'') g, None)
                   else (g, Some (SM_Create c content
                                    (case type of None \<Rightarrow> ''TEXT''
                                     | Some t \<Rightarrow> if truthy type then t else ''TEXT'')
                                    channelId)))
          | TypingStart \<Rightarrow>
              if truthy (currentChannel s)
              then (emit_others c (current_room (currentChannel s))
                      (UserTyping (userId (user s)) (display_name (user s))) g, None)
              else (g, None)
          | TypingStop \<Rightarrow>
              if truthy (currentChannel s)
              then (emit_others c (current_room (currentChannel s))
                      (UserStopTyping (userId (user s))) g, None)
              else (g, None)
          | AddReaction messageId emoji \<Rightarrow> (g, Some (AR_Find c messageId emoji))))"

text \<open>
  The awaited call of a suspended handler resolves: the call takes effect on the store as
  it is now and the handler runs to its next \<^verbatim>\<open>await\<close> (or to its end).
\<close>

fun resume :: "world \<Rightarrow> task \<Rightarrow> gateway \<Rightarrow> gateway \<times> task option" where
  "resume w (A_Session c t) g = validateSession_findUnique w c t g"
| "resume w (A_Delete c sessionId) g = validateSession_delete w c sessionId g"
| "resume w (A_Update c s usr) g = validateSession_update w c s usr g"
| "resume w (A_User c uid) g = auth_findUnique w c uid g"
| "resume w (JS_Member c serverId) g =
     (case sock_of g c of None \<Rightarrow> (g, None) | Some s \<Rightarrow> join_server_findFirst w s serverId g)"
| "resume w (JS_Channels c serverId) g =
     (case sock_of g c of None \<Rightarrow> (g, None) | Some s \<Rightarrow> join_server_findMany w s serverId g)"
| "resume w (JC_Channel c channelId) g =
     (case sock_of g c of None \<Rightarrow> (g, None) | Some s \<Rightarrow> join_channel_findFirst w s channelId g)"
| "resume w (JC_Messages c channelId) g =
     (case sock_of g c of None \<Rightarrow> (g, None) | Some s \<Rightarrow> join_channel_findMany w s channelId g)"
| "resume w (SM_Create c content type channelId) g =
     (case sock_of g c of None \<Rightarrow> (g, None)
      | Some s \<Rightarrow> send_message_create w s content type channelId g)"
| "resume w (SM_Touch c cur) g =
     (case sock_of g c of None \<Rightarrow> (g, None) | Some s \<Rightarrow> send_message_update w s cur g)"
| "resume w (AR_Find c messageId emoji) g =
     (case sock_of g c of None \<Rightarrow> (g, None)
      | Some s \<Rightarrow> add_reaction_findFirst w s messageId emoji g)"
| "resume w (AR_Delete c messageId reactionId) g =
     (case sock_of g c of None \<Rightarrow> (g, None)
      | Some s \<Rightarrow> add_reaction_delete w s messageId reactionId g)"
| "resume w (AR_Create c messageId emoji) g =
     (case sock_of g c of None \<Rightarrow> (g, None)
      | Some s \<Rightarrow> add_reaction_create w s messageId emoji g)"
| "resume w (AR_List c messageId) g =
     (case sock_of g c of None \<Rightarrow> (g, None) | Some s \<Rightarrow> add_reaction_findMany w s messageId g)"

text \<open>
  Lines 301-309. socket.io has taken the socket out of all its rooms and marked it
  disconnected before the handler runs.
\<close>

definition disconnect :: "nat \<Rightarrow> gateway \<Rightarrow> gateway" where
  "disconnect c g =
     (case sock_of g c of
        None \<Rightarrow> g
      | Some s \<Rightarrow>
          let g' = upd_sock c (\<lambda>x. x\<lparr>rooms := {}, connected := False\<rparr>) g
          in if truthy (currentChannel s)
             then emit_others c (current_room (currentChannel s)) (UserLeft (userId (user s))) g'
             else g')"

text \<open>
  A handler run to its end with nothing else in between: the worlds are those of its awaited
  calls, in order.
\<close>

fun run :: "world list \<Rightarrow> gateway \<times> task option \<Rightarrow> gateway" where
  "run ws (g, None) = g"
| "run [] (g, Some t) = g"
| "run (w # ws) (g, Some t) = run ws (resume w t g)"

text \<open>The call that a run leaves suspended when its worlds are used up, if any.\<close>

fun leftover :: "world list \<Rightarrow> gateway \<times> task option \<Rightarrow> task option" where
  "leftover ws (g, None) = None"
| "leftover [] (g, Some t) = Some t"
| "leftover (w # ws) (g, Some t) = leftover ws (resume w t g)"

text \<open>The number of store calls a suspended handler can still await, this one included.\<close>

fun calls_left :: "task \<Rightarrow> nat" where
  "calls_left (A_Session _ _) = 3"
| "calls_left (A_Delete _ _) = 1"
| "calls_left (A_Update _ _ _) = 2"
| "calls_left (A_User _ _) = 1"
| "calls_left (JS_Member _ _) = 2"
| "calls_left (JS_Channels _ _) = 1"
| "calls_left (JC_Channel _ _) = 2"
| "calls_left (JC_Messages _ _) = 1"
| "calls_left (SM_Create _ _ _ _) = 2"
| "calls_left (SM_Touch _ _) = 1"
| "calls_left (AR_Find _ _ _) = 3"
| "calls_left (AR_Delete _ _ _) = 2"
| "calls_left (AR_Create _ _ _) = 2"
| "calls_left (AR_List _ _) = 1"

text \<open>
  The event loop interleaves: between two resumptions of one handler, handshakes, wire
  events, resumptions of other suspended handlers, disconnects and changes of the store by
  the rest of the application may happen. Socket ids are fresh at the handshake.
\<close>

fun task_sock :: "task \<Rightarrow> nat" where
  "task_sock (A_Session c _) = c"
| "task_sock (A_Delete c _) = c"
| "task_sock (A_Update c _ _) = c"
| "task_sock (A_User c _) = c"
| "task_sock (JS_Member c _) = c"
| "task_sock (JS_Channels c _) = c"
| "task_sock (JC_Channel c _) = c"
| "task_sock (JC_Messages c _) = c"
| "task_sock (SM_Create c _ _ _) = c"
| "task_sock (SM_Touch c _) = c"
| "task_sock (AR_Find c _ _) = c"
| "task_sock (AR_Delete c _ _) = c"
| "task_sock (AR_Create c _ _) = c"
| "task_sock (AR_List c _) = c"

definition pending :: "task option \<Rightarrow> task list" where
  "pending t = (case t of None \<Rightarrow> [] | Some x \<Rightarrow> [x])"

text \<open>The store generates the ids of its rows: no channel has the empty string as its id.\<close>

definition store_ok :: "database \<Rightarrow> bool" where
  "store_ok d = ([] \<notin> ch_id ` set (channels d))"

inductive reach :: "(string \<Rightarrow> bool) \<Rightarrow> gateway \<times> task list \<Rightarrow> bool"
  for verifyToken :: "string \<Rightarrow> bool" where
  boot: "store_ok d \<Longrightarrow> reach verifyToken (\<lparr>db = d, socks = [], outbox = [], refused = []\<rparr>, [])"
| connect:
    "reach verifyToken (g, ts) \<Longrightarrow> c \<notin> sid ` set (socks g) \<Longrightarrow> c \<notin> task_sock ` set ts \<Longrightarrow>
     handshake verifyToken c token g = (g', t) \<Longrightarrow>
     reach verifyToken (g', ts @ pending t)"
| receive:
    "reach verifyToken (g, ts) \<Longrightarrow> sock_of g c = Some s \<Longrightarrow> connected s \<Longrightarrow>
     start c ev g = (g', t) \<Longrightarrow>
     reach verifyToken (g', ts @ pending t)"
| resolve:
    "reach verifyToken (g, ts) \<Longrightarrow> t \<in> set ts \<Longrightarrow> resume w t g = (g', t') \<Longrightarrow>
     reach verifyToken (g', remove1 t ts @ pending t')"
| hangup:
    "reach verifyToken (g, ts) \<Longrightarrow> sock_of g c = Some s \<Longrightarrow> connected s \<Longrightarrow>
     reach verifyToken (disconnect c g, ts)"
| store:
    "reach verifyToken (g, ts) \<Longrightarrow> store_ok d \<Longrightarrow> reach verifyToken (g\<lparr>db := d\<rparr>, ts)"

section \<open>Observations on sockets\<close>

definition is_channel_room :: "string \<Rightarrow> bool" where
  "is_channel_room r = (take 8 r = ''channel:'')"

definition is_server_room :: "string \<Rightarrow> bool" where
  "is_server_room r = (take 7 r = ''server:'')"

text \<open>The channel rooms a socket is subscribed to.\<close>

definition subscriptions :: "socket \<Rightarrow> string set" where
  "subscriptions x = {r \<in> rooms x. is_channel_room r}"

text \<open>
  A socket is tidy when it is subscribed to no channel room but the one of its
  \<^verbatim>\<open>currentChannel\<close>, and, as long as it is connected, to that one.
\<close>

definition tidy_sock :: "socket \<Rightarrow> bool" where
  "tidy_sock x =
     (currentChannel x \<noteq> Some [] \<and>
      (case currentChannel x of
         None \<Rightarrow> subscriptions x = {}
       | Some ch \<Rightarrow> (if connected x then subscriptions x = {channel_room ch}
                    else subscriptions x \<subseteq> {channel_room ch})))"

definition tidy :: "gateway \<Rightarrow> bool" where
  "tidy g = (store_ok (db g) \<and> list_all tidy_sock (socks g))"

text \<open>No socket of the gateway carries the id of its user.\<close>

definition untyped :: "gateway \<Rightarrow> bool" where
  "untyped g = list_all (\<lambda>x. userId (user x) = None) (socks g)"

text \<open>The gateway with every trace of \<^verbatim>\<open>join-server\<close> on its sockets wiped.\<close>

definition forget_sock :: "socket \<Rightarrow> socket" where
  "forget_sock x = x\<lparr>currentServer := None, rooms := {r \<in> rooms x. \<not> is_server_room r}\<rparr>"

definition forget_scope :: "gateway \<Rightarrow> gateway" where
  "forget_scope g = g\<lparr>socks := map forget_sock (socks g)\<rparr>"

text \<open>The reaction set of a message: who has reacted to it with which emoji.\<close>

definition reaction_set :: "database \<Rightarrow> string \<Rightarrow> (string \<times> string) set" where
  "reaction_set d messageId =
     (\<lambda>r. (rc_userId r, rc_emoji r)) ` {r \<in> set (reactions d). rc_messageId r = messageId}"

text \<open>
  The reaction table is in order when its ids are unique and no two rows have the same
  user, message and emoji (the invariant of section 3 of the specification).
\<close>

definition reactions_ok :: "database \<Rightarrow> bool" where
  "reactions_ok d =
     (distinct (map rc_id (reactions d)) \<and>
      distinct (map (\<lambda>r. (rc_userId r, rc_messageId r, rc_emoji r)) (reactions d)))"

text \<open>The outcome of a step, looked at without the traces of \<^verbatim>\<open>join-server\<close>.\<close>

definition scopeless :: "gateway \<times> task option \<Rightarrow> gateway \<times> task option" where
  "scopeless p = (forget_scope (fst p), snd p)"

section \<open>Example stores and gateways\<close>

definition calm :: world where
  "calm = \<lparr>threw = False, now = 100, new_id = ''n1''\<rparr>"

definition fault :: world where
  "fault = \<lparr>threw = True, now = 100, new_id = ''n1''\<rparr>"

definition alice :: user_row where
  "alice = \<lparr>u_id = ''u1'', u_email = ''alice@example.org'', u_username = ''alice'',
             u_isAnonymous = False, u_anonymousId = None, u_avatar = None, u_isAdmin = False\<rparr>"

definition bob :: user_row where
  "bob = \<lparr>u_id = ''u2'', u_email = ''bob@example.org'', u_username = ''bob'',
           u_isAnonymous = True, u_anonymousId = Some ''ghost-7'', u_avatar = None,
           u_isAdmin = False\<rparr>"

definition msg :: "string \<Rightarrow> string \<Rightarrow> nat \<Rightarrow> message_row" where
  "msg i ch t = \<lparr>ms_id = i, ms_content = ''text of '' @ i, ms_type = ''TEXT'',
                 ms_userId = ''u1'', ms_channelId = ch, ms_createdAt = t\<rparr>"

text \<open>
  Alice is a member of server \<open>s1\<close> with the channels \<open>c1\<close> and \<open>c2\<close>; Bob is a member of no
  server. Bob once reacted to message \<open>m1\<close>.
\<close>

definition demo_db :: database where
  "demo_db =
     \<lparr>users = [alice, bob],
      sessions = [\<lparr>ss_id = ''x1'', ss_token = ''tok-alice'', ss_userId = ''u1'',
                   ss_expiresAt = 1000, ss_lastUsed = 0\<rparr>,
                  \<lparr>ss_id = ''x2'', ss_token = ''tok-bob'', ss_userId = ''u2'',
                   ss_expiresAt = 1000, ss_lastUsed = 0\<rparr>,
                  \<lparr>ss_id = ''x3'', ss_token = ''tok-old'', ss_userId = ''u1'',
                   ss_expiresAt = 50, ss_lastUsed = 0\<rparr>],
      members = [\<lparr>mb_userId = ''u1'', mb_serverId = ''s1''\<rparr>],
      channels = [\<lparr>ch_id = ''c2'', ch_serverId = ''s1'', ch_name = ''random'', ch_type = ''TEXT'',
                   ch_topic = None, ch_position = 1, ch_updatedAt = 0\<rparr>,
                  \<lparr>ch_id = ''c1'', ch_serverId = ''s1'', ch_name = ''general'', ch_type = ''TEXT'',
                   ch_topic = Some ''General discussion'', ch_position = 0, ch_updatedAt = 0\<rparr>],
      messages = [msg ''m1'' ''c1'' 30, msg ''m2'' ''c1'' 10, msg ''m9'' ''c2'' 15,
                  msg ''m3'' ''c1'' 20],
      reactions = [\<lparr>rc_id = ''r1'', rc_userId = ''u2'', rc_messageId = ''m1'',
                    rc_emoji = ''+1''\<rparr>]\<rparr>"

definition demo_boot :: gateway where
  "demo_boot = \<lparr>db = demo_db, socks = [], outbox = [], refused = []\<rparr>"

text \<open>Alice connects as socket 1, then Bob as socket 2, each through the middleware.\<close>

definition alice_online :: gateway where
  "alice_online = run [calm, calm, calm] (handshake (\<lambda>t. True) 1 (Some ''tok-alice'') demo_boot)"

definition both_online :: gateway where
  "both_online = run [calm, calm, calm] (handshake (\<lambda>t. True) 2 (Some ''tok-bob'') alice_online)"

text \<open>
  A gateway whose sockets carry the id of their user in \<^verbatim>\<open>userId\<close>, as the interface
  \<^verbatim>\<open>SocketUser\<close> declares it: socket 1 (user \<open>u1\<close>) and socket 2 (user \<open>u2\<close>) are in channel
  \<open>c1\<close>, socket 3 (user \<open>u3\<close>) is in channel \<open>c2\<close>.
\<close>

definition typed_sock :: "nat \<Rightarrow> string \<Rightarrow> string \<Rightarrow> socket" where
  "typed_sock c uid ch =
     \<lparr>sid = c,
      user = \<lparr>userId = Some uid, username = ''user-'' @ uid, isAnonymous = False,
              anonymousId = None, isAdmin = False\<rparr>,
      currentServer = None, currentChannel = Some ch, rooms = {channel_room ch},
      connected = True\<rparr>"

definition typed_gateway :: gateway where
  "typed_gateway =
     \<lparr>db = demo_db,
      socks = [typed_sock 1 ''u1'' ''c1'', typed_sock 2 ''u2'' ''c1'', typed_sock 3 ''u3'' ''c2''],
      outbox = [], refused = []\<rparr>"


text \<open>
  Alice's account has been deleted. In \<open>orphaned\<close> her session rows are still in the
  table, in \<open>cascaded\<close> they have gone with her.
\<close>

definition orphaned :: gateway where
  "orphaned = demo_boot\<lparr>db := demo_db\<lparr>users := [bob]\<rparr>\<rparr>"

definition cascaded :: gateway where
  "cascaded = demo_boot\<lparr>db := demo_db\<lparr>users := [bob],
                 sessions := filter (\<lambda>s. ss_userId s \<noteq> ''u1'') (sessions demo_db)\<rparr>\<rparr>"

text \<open>Alice, alone on the gateway, has joined channel \<open>c1\<close>.\<close>

definition alice_in_c1 :: gateway where
  "alice_in_c1 = run [calm, calm] (start 1 (JoinChannel ''c1'') alice_online)"

text \<open>Fifty-two messages in channel \<open>c1\<close>, created at the times 0 to 51, newest first in the table.\<close>

definition crowd :: "message_row list" where
  "crowd = map (\<lambda>t. msg (replicate t CHR ''m'') ''c1'' t) (rev [0..<52])"

text \<open>
  Four messages in channel \<open>c1\<close>, three of them created at the same time, and a table of
  fifty-one messages in channel \<open>c1\<close> that were all created at the same time.
\<close>

definition ties :: "message_row list" where
  "ties = [msg ''ma'' ''c1'' 5, msg ''mb'' ''c1'' 5, msg ''mc'' ''c1'' 1, msg ''md'' ''c1'' 5]"

definition burst :: "message_row list" where
  "burst = map (\<lambda>k. msg (replicate k CHR ''m'') ''c1'' 7) [0..<51]"


section \<open>Properties\<close>

subsection \<open>Unfolding and evaluation\<close>

lemmas emit_defs = emit_def emit_self_def emit_others_def emit_room_def emit_all_def
  in_room_def all_connected_def

lemmas query_defs = find_member_def find_channel_def server_channels_def find_reaction_def
  reactions_of_def reaction_out_def hydrate_def author_of_def select_channel_def
  newest_first_def recent_messages_def channel_history_def

lemmas segment_defs = handshake_def validateSession_findUnique_def validateSession_delete_def
  validateSession_update_def auth_findUnique_def reject_def admit_def
  join_server_findFirst_def join_server_findMany_def
  join_channel_findFirst_def join_channel_findMany_def switch_channel_def
  send_message_create_def send_message_update_def
  add_reaction_findFirst_def add_reaction_delete_def add_reaction_create_def
  add_reaction_findMany_def start_def disconnect_def sock_of_def upd_sock_def
  server_room_def channel_room_def current_room_def display_name_def

lemmas demo_defs = calm_def fault_def alice_def bob_def msg_def demo_db_def demo_boot_def
  typed_sock_def typed_gateway_def

lemma alice_online_eval:
  "alice_online =
     \<lparr>db = demo_db\<lparr>sessions :=
            [\<lparr>ss_id = ''x1'', ss_token = ''tok-alice'', ss_userId = ''u1'',
              ss_expiresAt = 1000, ss_lastUsed = 100\<rparr>,
             \<lparr>ss_id = ''x2'', ss_token = ''tok-bob'', ss_userId = ''u2'',
              ss_expiresAt = 1000, ss_lastUsed = 0\<rparr>,
             \<lparr>ss_id = ''x3'', ss_token = ''tok-old'', ss_userId = ''u1'',
              ss_expiresAt = 50, ss_lastUsed = 0\<rparr>]\<rparr>,
      socks = [\<lparr>sid = 1, user = \<lparr>userId = None, username = ''alice'', isAnonymous = False,
                 anonymousId = None, isAdmin = False\<rparr>,
               currentServer = None, currentChannel = None, rooms = {}, connected = True\<rparr>],
      outbox = [], refused = []\<rparr>"
  by (simp add: alice_online_def segment_defs demo_defs)

lemma both_online_eval:
  "both_online =
     \<lparr>db = demo_db\<lparr>sessions :=
            [\<lparr>ss_id = ''x1'', ss_token = ''tok-alice'', ss_userId = ''u1'',
              ss_expiresAt = 1000, ss_lastUsed = 100\<rparr>,
             \<lparr>ss_id = ''x2'', ss_token = ''tok-bob'', ss_userId = ''u2'',
              ss_expiresAt = 1000, ss_lastUsed = 100\<rparr>,
             \<lparr>ss_id = ''x3'', ss_token = ''tok-old'', ss_userId = ''u1'',
              ss_expiresAt = 50, ss_lastUsed = 0\<rparr>]\<rparr>,
      socks = [\<lparr>sid = 1, user = \<lparr>userId = None, username = ''alice'', isAnonymous = False,
                 anonymousId = None, isAdmin = False\<rparr>,
               currentServer = None, currentChannel = None, rooms = {}, connected = True\<rparr>,
               \<lparr>sid = 2, user = \<lparr>userId = None, username = ''bob'', isAnonymous = True,
                 anonymousId = Some ''ghost-7'', isAdmin = False\<rparr>,
               currentServer = None, currentChannel = None, rooms = {}, connected = True\<rparr>],
      outbox = [], refused = []\<rparr>"
  by (simp add: both_online_def alice_online_eval segment_defs demo_defs)

subsection \<open>What a socket receives when the gateway emits to it alone\<close>

lemma sock_of_SomeD: "sock_of g c = Some s \<Longrightarrow> s \<in> set (socks g) \<and> sid s = c"
  by (auto simp: sock_of_def find_Some_iff)

lemma self_connected:
  "sock_of g c = Some s \<Longrightarrow> connected s \<Longrightarrow> all_connected g \<inter> {c} = {c}"
  by (auto simp: all_connected_def dest: sock_of_SomeD)

lemma emit_self_connected:
  "sock_of g c = Some s \<Longrightarrow> connected s \<Longrightarrow>
   emit_self c ev g = g\<lparr>outbox := outbox g @ [({c}, ev)]\<rparr>"
  by (simp add: emit_self_def emit_def self_connected)

subsection \<open>send-message without a room\<close>

text \<open>
  Claim C5. A \<^verbatim>\<open>send-message\<close> from a connected socket whose \<^verbatim>\<open>currentChannel\<close> is unset
  ends at once: the gateway afterwards is the gateway before with one more emitted event, the
  error \<^verbatim>\<open>Not in a channel\<close> (which the specification quotes in lower case), delivered to
  the sender alone. No store call is awaited, so \<^verbatim>\<open>message.create\<close> is never issued; the
  store and its messages are what they were, and no other event is emitted to anyone.
\<close>

theorem send_message_without_room:
  assumes "sock_of g c = Some s" and "connected s" and "currentChannel s = None"
  shows "start c (SendMessage content type) g =
           (g\<lparr>outbox := outbox g @ [({c}, Error ''Not in a channel'')]\<rparr>, None)
         \<and> messages (db (fst (start c (SendMessage content type) g))) = messages (db g)"
  using assms by (simp add: start_def emit_self_connected)

theorem send_message_without_room_witness:
  "(\<exists>s. sock_of both_online 1 = Some s \<and> connected s \<and> currentChannel s = None)
   \<and> start 1 (SendMessage ''hello'' None) both_online =
       (both_online\<lparr>outbox := [({1}, Error ''Not in a channel'')]\<rparr>, None)
   \<and> messages (db (fst (start 1 (SendMessage ''hello'' None) both_online))) = messages demo_db"
  using send_message_without_room [of both_online 1 _ "''hello''" None]
  by (simp add: both_online_eval sock_of_def)

subsection \<open>Room names\<close>

lemma is_channel_room_channel [simp]: "is_channel_room (channel_room ch)"
  by (simp add: is_channel_room_def channel_room_def)

lemma is_channel_room_server [simp]: "\<not> is_channel_room (server_room sv)"
  by (simp add: is_channel_room_def server_room_def)

lemma channel_room_inj [simp]: "(channel_room a = channel_room b) = (a = b)"
  by (simp add: channel_room_def)

lemma channel_rooms_insert:
  "{r \<in> insert a R. is_channel_room r} =
     (if is_channel_room a then insert a {r \<in> R. is_channel_room r} else {r \<in> R. is_channel_room r})"
  by auto

lemma channel_rooms_remove:
  "{r \<in> R - {a}. is_channel_room r} = {r \<in> R. is_channel_room r} - {a}"
  by auto






lemma currentChannel_switch [simp]: "currentChannel (switch_channel ch x) = Some ch"
  by (simp add: switch_channel_def Let_def)

lemma connected_switch [simp]: "connected (switch_channel ch x) = connected x"
  by (simp add: switch_channel_def Let_def)


subsection \<open>Tidy sockets stay tidy\<close>


lemma tidy_emit [simp]:
  "tidy (emit R ev g) = tidy g" "tidy (emit_self c ev g) = tidy g"
  "tidy (emit_others c r ev g) = tidy g" "tidy (emit_room r ev g) = tidy g"
  "tidy (emit_all ev g) = tidy g"
  by (simp_all add: tidy_def emit_def emit_self_def emit_others_def emit_room_def emit_all_def)

lemma tidy_reject [simp]: "tidy (reject c m g) = tidy g"
  by (simp add: tidy_def reject_def)





lemma tidy_sessions [simp]: "tidy (g\<lparr>db := (db g)\<lparr>sessions := ss\<rparr>\<rparr>) = tidy g"
  by (simp add: tidy_def store_ok_def)

lemma tidy_messages [simp]: "tidy (g\<lparr>db := (db g)\<lparr>messages := ms\<rparr>\<rparr>) = tidy g"
  by (simp add: tidy_def store_ok_def)

lemma tidy_reactions [simp]: "tidy (g\<lparr>db := (db g)\<lparr>reactions := rs\<rparr>\<rparr>) = tidy g"
  by (simp add: tidy_def store_ok_def)






















subsection \<open>Reachable gateways\<close>




lemma alice_in_c1_socks:
  "socks alice_in_c1 =
     [\<lparr>sid = 1, user = \<lparr>userId = None, username = ''alice'', isAnonymous = False,
                 anonymousId = None, isAdmin = False\<rparr>,
       currentServer = None, currentChannel = Some ''c1'', rooms = {''channel:c1''},
       connected = True\<rparr>]"
  by (simp add: alice_in_c1_def alice_online_eval segment_defs emit_defs query_defs demo_defs)

lemma alice_in_c1_db: "db alice_in_c1 = db alice_online"
  by (simp add: alice_in_c1_def alice_online_eval segment_defs emit_defs query_defs demo_defs)


subsection \<open>One room at a time\<close>




subsection \<open>Updating one socket\<close>

lemma find_map_sid:
  "(\<And>x. sid (h x) = sid x) \<Longrightarrow>
   find (\<lambda>s. sid s = k) (map h xs) = map_option h (find (\<lambda>s. sid s = k) xs)"
  by (induction xs) simp_all

lemma sock_of_upd_sock:
  assumes "\<And>x. sid (f x) = sid x"
  shows "sock_of (upd_sock c f g) k = map_option (\<lambda>x. if sid x = c then f x else x) (sock_of g k)"
  unfolding sock_of_def upd_sock_def using assms
  by (simp add: find_map_sid)

lemma all_connected_upd_sock:
  assumes "\<And>x. sid (f x) = sid x" and "\<And>x. connected (f x) = connected x"
  shows "all_connected (upd_sock c f g) = all_connected g"
proof -
  have "\<And>xs. map sid (filter connected (map (\<lambda>x. if sid x = c then f x else x) xs))
        = map sid (filter connected xs)"
    subgoal for xs using assms by (induction xs) simp_all
    done
  then show ?thesis by (simp add: all_connected_def upd_sock_def)
qed

lemma emit_self_upd_sock:
  assumes "\<And>x. sid (f x) = sid x" and "\<And>x. connected (f x) = connected x"
    and "sock_of g c = Some s" and "connected s"
  shows "emit_self c ev (upd_sock k f g) = (upd_sock k f g)\<lparr>outbox := outbox g @ [({c}, ev)]\<rparr>"
proof -
  have "all_connected (upd_sock k f g) \<inter> {c} = {c}"
    using assms by (simp add: all_connected_upd_sock self_connected)
  moreover have "outbox (upd_sock k f g) = outbox g" by (simp add: upd_sock_def)
  ultimately show ?thesis by (simp add: emit_self_def emit_def)
qed

lemma sid_switch [simp]: "sid (switch_channel ch x) = sid x"
  by (simp add: switch_channel_def Let_def)

subsection \<open>Every handler comes to its end\<close>

lemma resume_calls_left:
  "resume w t g = (g', Some t') \<Longrightarrow> calls_left t' < calls_left t"
  by (cases t)
     (auto simp: validateSession_findUnique_def validateSession_delete_def
        validateSession_update_def auth_findUnique_def join_server_findFirst_def
        join_server_findMany_def join_channel_findFirst_def join_channel_findMany_def
        send_message_create_def send_message_update_def add_reaction_findFirst_def
        add_reaction_delete_def add_reaction_create_def add_reaction_findMany_def Let_def
        split: option.splits if_splits)

lemma leftover_None:
  "calls_left t \<le> length ws \<Longrightarrow> leftover ws (g, Some t) = None"
proof (induction ws arbitrary: g t)
  case Nil
  then show ?case by (cases t) simp_all
next
  case (Cons w ws)
  obtain g' t' where r: "resume w t g = (g', t')" by (cases "resume w t g")
  show ?case
  proof (cases t')
    case None
    with r show ?thesis by simp
  next
    case (Some x)
    with r have "calls_left x < calls_left t" by (simp add: resume_calls_left)
    with Cons.prems have "calls_left x \<le> length ws" by simp
    from Cons.IH [OF this] r Some show ?thesis by simp
  qed
qed

lemma start_finishes: "3 \<le> length ws \<Longrightarrow> leftover ws (start c ev g) = None"
proof -
  assume l: "3 \<le> length ws"
  obtain g' t where s: "start c ev g = (g', t)" by (cases "start c ev g")
  show ?thesis
  proof (cases t)
    case None
    with s show ?thesis by simp
  next
    case (Some x)
    with s have "calls_left x \<le> 3"
      by (auto simp: start_def split: option.splits wire.splits if_splits)
    with l have "calls_left x \<le> length ws" by simp
    with s Some show ?thesis by (simp add: leftover_None)
  qed
qed

lemma handshake_finishes: "3 \<le> length ws \<Longrightarrow> leftover ws (handshake V c token g) = None"
proof -
  assume l: "3 \<le> length ws"
  obtain g' t where s: "handshake V c token g = (g', t)" by (cases "handshake V c token g")
  show ?thesis
  proof (cases t)
    case None
    with s show ?thesis by simp
  next
    case (Some x)
    with s have "calls_left x \<le> 3"
      by (auto simp: handshake_def split: option.splits if_splits)
    with l have "calls_left x \<le> length ws" by simp
    with s Some show ?thesis by (simp add: leftover_None)
  qed
qed


lemma run_past_end [simp]: "run ws (g, None) = g"
  by (cases ws) simp_all

lemma handshake_outcome:
  assumes "3 \<le> length ws"
  shows "outbox (run ws (handshake V c token g)) = outbox g
       \<and> ((socks (run ws (handshake V c token g)) = socks g
            \<and> (\<exists>m. refused (run ws (handshake V c token g)) = refused g @ [(c, m)]))
          \<or> (refused (run ws (handshake V c token g)) = refused g
            \<and> (\<exists>x. socks (run ws (handshake V c token g)) = socks g @ [x] \<and> sid x = c
                  \<and> currentServer x = None \<and> currentChannel x = None \<and> rooms x = {})))"
proof -
  from assms obtain w1 w2 w3 rest where ws: "ws = w1 # w2 # w3 # rest"
    by (cases ws; cases "tl ws"; cases "tl (tl ws)") auto
  show ?thesis
    unfolding ws
    by (auto simp: handshake_def validateSession_findUnique_def validateSession_delete_def
        validateSession_update_def auth_findUnique_def reject_def admit_def Let_def
        split: option.splits)
qed


subsection \<open>join-server that fails\<close>

text \<open>
  Claim C3, as the claim states it, fails: when the membership check has passed and the
  listing of the channels throws, the handler has already set \<^verbatim>\<open>currentServer\<close> (line 93) and
  joined the server's room (line 94), and the \<^verbatim>\<open>catch\<close> block only emits the error. Alice,
  in no server, asks for server \<open>s1\<close>; the request fails, and her scope is \<open>s1\<close> afterwards.
\<close>

theorem join_server_failure_counterexample:
  "outbox (run [calm, fault] (start 1 (JoinServer ''s1'') alice_online))
     = [({1}, Error ''Failed to join server'')]
   \<and> map currentServer (socks alice_online) = [None]
   \<and> map currentServer (socks (run [calm, fault] (start 1 (JoinServer ''s1'') alice_online)))
       = [Some ''s1'']"
  by (simp add: alice_online_eval segment_defs emit_defs query_defs demo_defs)

text \<open>
  Claim C3, amended. A \<^verbatim>\<open>join-server\<close> of a connected socket is at its end after its two
  store calls (nothing is left suspended), and it fails in one of three ways. When the membership lookup throws, or finds no row, the gateway is left
  as it was but for one more emitted event. When the lookup finds a row and the listing of
  the channels throws, \<^verbatim>\<open>currentServer\<close> is the requested server and the socket is in the
  server's room, and again one event is emitted. In all three the event is an error delivered
  to the requesting socket alone.
\<close>

theorem join_server_failure:
  assumes "sock_of g c = Some s" and "connected s"
  shows "leftover [w1, w2] (start c (JoinServer serverId) g) = None
       \<and> (threw w1 \<longrightarrow>
            run [w1, w2] (start c (JoinServer serverId) g)
              = g\<lparr>outbox := outbox g @ [({c}, Error ''Failed to join server'')]\<rparr>)
       \<and> (\<not> threw w1 \<and> find_member (db g) (userId (user s)) serverId = None \<longrightarrow>
            run [w1, w2] (start c (JoinServer serverId) g)
              = g\<lparr>outbox := outbox g @ [({c}, Error ''Not a member of this server'')]\<rparr>)
       \<and> (\<not> threw w1 \<and> find_member (db g) (userId (user s)) serverId \<noteq> None \<and> threw w2 \<longrightarrow>
            run [w1, w2] (start c (JoinServer serverId) g)
              = (upd_sock c (\<lambda>x. x\<lparr>currentServer := Some serverId,
                                   rooms := insert (server_room serverId) (rooms x)\<rparr>) g)
                  \<lparr>outbox := outbox g @ [({c}, Error ''Failed to join server'')]\<rparr>)"
proof -
  from assms have sid: "sid s = c" by (simp add: sock_of_SomeD)
  have st: "start c (JoinServer serverId) g = (g, Some (JS_Member c serverId))"
    using assms by (simp add: start_def)
  have 1: "threw w1 \<Longrightarrow> run [w1, w2] (start c (JoinServer serverId) g)
              = g\<lparr>outbox := outbox g @ [({c}, Error ''Failed to join server'')]\<rparr>"
    using assms sid by (simp add: st join_server_findFirst_def emit_self_connected)
  have 2: "\<not> threw w1 \<Longrightarrow> find_member (db g) (userId (user s)) serverId = None \<Longrightarrow>
            run [w1, w2] (start c (JoinServer serverId) g)
              = g\<lparr>outbox := outbox g @ [({c}, Error ''Not a member of this server'')]\<rparr>"
    using assms sid by (simp add: st join_server_findFirst_def emit_self_connected)
  have 3: "\<not> threw w1 \<Longrightarrow> find_member (db g) (userId (user s)) serverId \<noteq> None \<Longrightarrow> threw w2 \<Longrightarrow>
            run [w1, w2] (start c (JoinServer serverId) g)
              = (upd_sock c (\<lambda>x. x\<lparr>currentServer := Some serverId,
                                   rooms := insert (server_room serverId) (rooms x)\<rparr>) g)
                  \<lparr>outbox := outbox g @ [({c}, Error ''Failed to join server'')]\<rparr>"
    using assms sid
    by (auto simp: st join_server_findFirst_def join_server_findMany_def sock_of_upd_sock
        emit_self_upd_sock)
  have 0: "leftover [w1, w2] (start c (JoinServer serverId) g) = None"
    unfolding st by (rule leftover_None) simp
  from 0 1 2 3 show ?thesis by blast
qed

theorem join_server_failure_witness:
  "(\<exists>s. sock_of alice_online 1 = Some s \<and> connected s
        \<and> find_member (db alice_online) (userId (user s)) ''s1'' \<noteq> None
        \<and> find_member (db alice_online) (userId (user s)) ''s9'' = None)
   \<and> threw fault \<and> \<not> threw calm
   \<and> run [fault, calm] (start 1 (JoinServer ''s1'') alice_online)
       = alice_online\<lparr>outbox := [({1}, Error ''Failed to join server'')]\<rparr>
   \<and> run [calm, calm] (start 1 (JoinServer ''s9'') alice_online)
       = alice_online\<lparr>outbox := [({1}, Error ''Not a member of this server'')]\<rparr>
   \<and> run [calm, fault] (start 1 (JoinServer ''s1'') alice_online)
       = (upd_sock 1 (\<lambda>x. x\<lparr>currentServer := Some ''s1'',
                              rooms := insert (server_room ''s1'') (rooms x)\<rparr>) alice_online)
           \<lparr>outbox := [({1}, Error ''Failed to join server'')]\<rparr>"
proof -
  have s: "sock_of alice_online 1 = Some (socks alice_online ! 0)"
    and c: "connected (socks alice_online ! 0)"
    and u: "userId (user (socks alice_online ! 0)) = None"
    and o: "outbox alice_online = []"
    by (simp_all add: alice_online_eval sock_of_def)
  have m1: "find_member (db alice_online) None ''s1'' \<noteq> None"
    and m9: "find_member (db alice_online) None ''s9'' = None"
    by (simp_all add: alice_online_eval find_member_def demo_defs)
  have w: "threw fault" "\<not> threw calm" by (simp_all add: calm_def fault_def)
  from join_server_failure [OF s c, of fault calm "''s1''"]
       join_server_failure [OF s c, of calm calm "''s9''"]
       join_server_failure [OF s c, of calm fault "''s1''"]
  show ?thesis using s c u o m1 m9 w by simp
qed

subsection \<open>join-channel that fails\<close>

text \<open>
  Claim C6, as the claim states it, fails for an error after the access check: lines 138-144
  have already left the old room, set \<^verbatim>\<open>currentChannel\<close> and joined the new room when
  \<^verbatim>\<open>message.findMany\<close> throws. Alice, in channel \<open>c1\<close>, asks for \<open>c2\<close>; the request fails, and
  she is in \<open>c2\<close> afterwards.
\<close>

theorem join_channel_failure_counterexample:
  "outbox (run [calm, fault] (start 1 (JoinChannel ''c2'') alice_in_c1))
     = outbox alice_in_c1 @ [({1}, Error ''Failed to join channel'')]
   \<and> map (\<lambda>x. (currentChannel x, rooms x)) (socks alice_in_c1) = [(Some ''c1'', {''channel:c1''})]
   \<and> map (\<lambda>x. (currentChannel x, rooms x))
         (socks (run [calm, fault] (start 1 (JoinChannel ''c2'') alice_in_c1)))
       = [(Some ''c2'', {''channel:c2''})]"
  by (simp add: alice_in_c1_def alice_online_eval segment_defs emit_defs query_defs demo_defs)

text \<open>
  Claim C6, amended. A \<^verbatim>\<open>join-channel\<close> of a connected socket is at its end after its two
  store calls (nothing is left suspended), and it fails in one of three ways. When the channel lookup throws, or finds no channel to which the user
  has access, the gateway is left as it was but for one more emitted event. When the lookup
  finds the channel and the reading of the history throws, the socket has been switched to
  the requested channel, and again one event is emitted. In all three the event is an error
  delivered to the requesting socket alone; no \<^verbatim>\<open>user-joined\<close> is emitted.
\<close>

theorem join_channel_failure:
  assumes "sock_of g c = Some s" and "connected s"
  shows "leftover [w1, w2] (start c (JoinChannel channelId) g) = None
       \<and> (threw w1 \<longrightarrow>
            run [w1, w2] (start c (JoinChannel channelId) g)
              = g\<lparr>outbox := outbox g @ [({c}, Error ''Failed to join channel'')]\<rparr>)
       \<and> (\<not> threw w1 \<and> find_channel (db g) (userId (user s)) channelId = None \<longrightarrow>
            run [w1, w2] (start c (JoinChannel channelId) g)
              = g\<lparr>outbox := outbox g @ [({c}, Error ''Channel not found or access denied'')]\<rparr>)
       \<and> (\<not> threw w1 \<and> find_channel (db g) (userId (user s)) channelId \<noteq> None \<and> threw w2 \<longrightarrow>
            run [w1, w2] (start c (JoinChannel channelId) g)
              = (upd_sock c (switch_channel channelId) g)
                  \<lparr>outbox := outbox g @ [({c}, Error ''Failed to join channel'')]\<rparr>)"
proof -
  from assms have sid: "sid s = c" by (simp add: sock_of_SomeD)
  have st: "start c (JoinChannel channelId) g = (g, Some (JC_Channel c channelId))"
    using assms by (simp add: start_def)
  have 1: "threw w1 \<Longrightarrow> run [w1, w2] (start c (JoinChannel channelId) g)
              = g\<lparr>outbox := outbox g @ [({c}, Error ''Failed to join channel'')]\<rparr>"
    using assms sid by (simp add: st join_channel_findFirst_def emit_self_connected)
  have 2: "\<not> threw w1 \<Longrightarrow> find_channel (db g) (userId (user s)) channelId = None \<Longrightarrow>
            run [w1, w2] (start c (JoinChannel channelId) g)
              = g\<lparr>outbox := outbox g @ [({c}, Error ''Channel not found or access denied'')]\<rparr>"
    using assms sid by (simp add: st join_channel_findFirst_def emit_self_connected)
  have 3: "\<not> threw w1 \<Longrightarrow> find_channel (db g) (userId (user s)) channelId \<noteq> None \<Longrightarrow> threw w2 \<Longrightarrow>
            run [w1, w2] (start c (JoinChannel channelId) g)
              = (upd_sock c (switch_channel channelId) g)
                  \<lparr>outbox := outbox g @ [({c}, Error ''Failed to join channel'')]\<rparr>"
    using assms sid
    by (auto simp: st join_channel_findFirst_def join_channel_findMany_def sock_of_upd_sock
        emit_self_upd_sock)
  have 0: "leftover [w1, w2] (start c (JoinChannel channelId) g) = None"
    unfolding st by (rule leftover_None) simp
  from 0 1 2 3 show ?thesis by blast
qed


theorem join_channel_failure_witness:
  "(\<exists>s. sock_of alice_in_c1 1 = Some s \<and> connected s
        \<and> find_channel (db alice_in_c1) (userId (user s)) ''c2'' \<noteq> None
        \<and> find_channel (db alice_in_c1) (userId (user s)) ''c9'' = None)
   \<and> threw fault \<and> \<not> threw calm
   \<and> run [fault, calm] (start 1 (JoinChannel ''c2'') alice_in_c1)
       = alice_in_c1\<lparr>outbox := outbox alice_in_c1 @ [({1}, Error ''Failed to join channel'')]\<rparr>
   \<and> run [calm, calm] (start 1 (JoinChannel ''c9'') alice_in_c1)
       = alice_in_c1\<lparr>outbox := outbox alice_in_c1
                                  @ [({1}, Error ''Channel not found or access denied'')]\<rparr>
   \<and> run [calm, fault] (start 1 (JoinChannel ''c2'') alice_in_c1)
       = (upd_sock 1 (switch_channel ''c2'') alice_in_c1)
           \<lparr>outbox := outbox alice_in_c1 @ [({1}, Error ''Failed to join channel'')]\<rparr>"
proof -
  have s: "sock_of alice_in_c1 1 = Some (socks alice_in_c1 ! 0)"
    and c: "connected (socks alice_in_c1 ! 0)"
    and u: "userId (user (socks alice_in_c1 ! 0)) = None"
    by (simp_all add: alice_in_c1_socks sock_of_def)
  have f2: "find_channel (db alice_in_c1) None ''c2'' \<noteq> None"
    and f9: "find_channel (db alice_in_c1) None ''c9'' = None"
    by (simp_all add: alice_in_c1_db alice_online_eval find_channel_def demo_defs)
  have w: "threw fault" "\<not> threw calm" by (simp_all add: calm_def fault_def)
  from join_channel_failure [OF s c, of fault calm "''c2''"]
       join_channel_failure [OF s c, of calm calm "''c9''"]
       join_channel_failure [OF s c, of calm fault "''c2''"]
  show ?thesis using s c u f2 f9 w by simp
qed

subsection \<open>The history delivered by join-channel\<close>








lemma user_switch [simp]: "user (switch_channel ch x) = user x"
  by (simp add: switch_channel_def Let_def)

lemma upd_sock_fields [simp]:
  "db (upd_sock c f g) = db g" "outbox (upd_sock c f g) = outbox g"
  "refused (upd_sock c f g) = refused g"
  by (simp_all add: upd_sock_def)

lemma in_room_fields [simp]:
  "in_room (g\<lparr>outbox := ob\<rparr>) r = in_room g r" "in_room (g\<lparr>db := d\<rparr>) r = in_room g r"
  "in_room (g\<lparr>refused := rf\<rparr>) r = in_room g r"
  by (simp_all add: in_room_def)

lemma all_connected_fields [simp]:
  "all_connected (g\<lparr>outbox := ob\<rparr>) = all_connected g"
  "all_connected (g\<lparr>db := d\<rparr>) = all_connected g"
  "all_connected (g\<lparr>refused := rf\<rparr>) = all_connected g"
  by (simp_all add: all_connected_def)



text \<open>The cut at fifty on the channel of fifty-two messages: the two oldest are left out.\<close>

lemma crowd_rows:
  "map ms_createdAt (map (fst \<circ> fst) (channel_history (demo_db\<lparr>messages := crowd\<rparr>) ''c1'')) = [2..<52]"
  by code_simp

text \<open>
  Rows of the same creation time reach the client in the reverse of the order in which the
  store returns them, which is the order of the table; at the cut the rows that come last in
  the table are left out.
\<close>

lemma ties_rows:
  "map (ms_id \<circ> fst \<circ> fst) (channel_history (demo_db\<lparr>messages := ties\<rparr>) ''c1'')
     = [''mc'', ''md'', ''mb'', ''ma'']"
  by code_simp

lemma burst_rows:
  "map (length \<circ> ms_id \<circ> fst \<circ> fst) (channel_history (demo_db\<lparr>messages := burst\<rparr>) ''c1'')
     = rev [0..<50]"
  by code_simp

subsection \<open>Refused handshakes\<close>

lemma found_again:
  "find (\<lambda>u. u_id u = k) us = Some u \<Longrightarrow> find (\<lambda>x. u_id x = u_id u) us = Some u"
proof -
  assume a: "find (\<lambda>u. u_id u = k) us = Some u"
  then have "u_id u = k" by (auto simp: find_Some_iff)
  with a show ?thesis by simp
qed

lemma atomic_handshake_finds_its_user:
  "refused (run ws (handshake V c token g)) \<noteq> refused g @ [(c, ''User not found'')]"
proof (cases token)
  case None
  then show ?thesis by (simp add: handshake_def reject_def)
next
  case (Some t)
  show ?thesis
  proof (cases "t \<noteq> [] \<and> V t")
    case False
    with Some show ?thesis by (auto simp: handshake_def reject_def)
  next
    case True
    with Some have h: "handshake V c token g = (g, Some (A_Session c t))"
      by (simp add: handshake_def)
    show ?thesis
    proof (cases ws)
      case Nil
      with h show ?thesis by simp
    next
      case (Cons w1 r1)
      note ws1 = Cons
      show ?thesis
      proof (cases "threw w1 \<or> find (\<lambda>s. ss_token s = t) (sessions (db g)) = None")
        case True
        with h ws1 show ?thesis
          by (auto simp: validateSession_findUnique_def reject_def)
      next
        case False
        then obtain s where s: "find (\<lambda>s. ss_token s = t) (sessions (db g)) = Some s"
          and w1: "\<not> threw w1" by auto
        show ?thesis
        proof (cases "ss_expiresAt s < now w1")
          case True
          with h ws1 s w1 show ?thesis
            by (cases r1) (auto simp: validateSession_findUnique_def validateSession_delete_def
                reject_def)
        next
          case False
          let ?usr = "find (\<lambda>u. u_id u = ss_userId s) (users (db g))"
          from h ws1 s w1 False
          have r: "run ws (handshake V c token g) = run r1 (g, Some (A_Update c s ?usr))"
            by (simp add: validateSession_findUnique_def)
          show ?thesis
          proof (cases r1)
            case Nil
            with r show ?thesis by simp
          next
            case (Cons w2 r2)
            note ws2 = Cons
            show ?thesis
            proof (cases ?usr)
              case None
              with r ws2 show ?thesis
                by (auto simp: validateSession_update_def reject_def Let_def)
            next
              case (Some u)
              then have again: "find (\<lambda>x. u_id x = u_id u) (users (db g)) = Some u"
                by (rule found_again)
              show ?thesis
              proof (cases r2)
                case Nil
                with r ws2 Some show ?thesis
                  by (auto simp: validateSession_update_def reject_def Let_def)
              next
                case (Cons w3 r3)
                with r ws2 Some again show ?thesis
                  by (auto simp: validateSession_update_def auth_findUnique_def reject_def
                      admit_def Let_def)
              qed
            qed
          qed
        qed
      qed
    qed
  qed
qed

lemma gone_is_invalid:
  assumes "t \<noteq> []" and "V t" and "find (\<lambda>s. ss_token s = t) (sessions (db g)) = Some s"
    and "find (\<lambda>u. u_id u = ss_userId s) (users (db g)) = None"
  shows "socks (run [w1, w2, w3] (handshake V c (Some t) g)) = socks g
       \<and> outbox (run [w1, w2, w3] (handshake V c (Some t) g)) = outbox g
       \<and> refused (run [w1, w2, w3] (handshake V c (Some t) g))
           = refused g @ [(c, ''Invalid session'')]
       \<and> leftover [w1, w2, w3] (handshake V c (Some t) g) = None"
  using assms
  by (simp add: handshake_def validateSession_findUnique_def validateSession_delete_def
      validateSession_update_def reject_def Let_def)

text \<open>
  Claim C8, as the claim states it, fails in its third case. Alice's account has been
  deleted; a handshake then presents the token of one of her sessions. Whether her session
  row is still in the table or has gone with her account, \<^verbatim>\<open>validateSession\<close> yields
  \<^verbatim>\<open>null\<close> (no session row, or a session whose user is missing, so that line 101 throws), and
  the handshake is refused with \<^verbatim>\<open>Invalid session\<close>, not with \<^verbatim>\<open>User not found\<close>.
\<close>

theorem authentication_failure_counterexample:
  "find (\<lambda>u. u_id u = ''u1'') (users (db orphaned)) = None
   \<and> map_option (\<lambda>s. (ss_userId s, ss_expiresAt s))
       (find (\<lambda>s. ss_token s = ''tok-alice'') (sessions (db orphaned))) = Some (''u1'', 1000)
   \<and> now calm = 100
   \<and> refused (run [calm, calm, calm] (handshake (\<lambda>t. True) 7 (Some ''tok-alice'') orphaned))
       = [(7, ''Invalid session'')]
   \<and> socks (run [calm, calm, calm] (handshake (\<lambda>t. True) 7 (Some ''tok-alice'') orphaned)) = []
   \<and> leftover [calm, calm, calm] (handshake (\<lambda>t. True) 7 (Some ''tok-alice'') orphaned) = None
   \<and> find (\<lambda>u. u_id u = ''u1'') (users (db cascaded)) = None
   \<and> find (\<lambda>s. ss_token s = ''tok-alice'') (sessions (db cascaded)) = None
   \<and> run [calm, calm, calm] (handshake (\<lambda>t. True) 7 (Some ''tok-alice'') cascaded)
       = cascaded\<lparr>refused := [(7, ''Invalid session'')]\<rparr>
   \<and> leftover [calm, calm, calm] (handshake (\<lambda>t. True) 7 (Some ''tok-alice'') cascaded) = None"
  by (simp add: orphaned_def cascaded_def segment_defs demo_defs)

text \<open>
  Claim C8, amended. The middleware refuses a handshake with the message of the branch it
  takes, as the code spells it (the specification quotes the messages in lower case):
  \<^verbatim>\<open>Authentication error\<close> when the token is missing (or empty); \<^verbatim>\<open>Invalid session\<close> when
  \<^verbatim>\<open>validateSession\<close> yields \<^verbatim>\<open>null\<close>, that is, when the token does not verify, when no
  session row holds it, when the session has expired (the row is deleted first), and when the
  user of the session does not exist; \<^verbatim>\<open>User not found\<close> when the validation has passed and
  the user row is gone at the moment \<^verbatim>\<open>user.findUnique\<close> resolves; \<^verbatim>\<open>Authentication failed\<close>
  when \<^verbatim>\<open>user.findUnique\<close> throws. A handshake that runs with nothing else in between is never
  refused with \<^verbatim>\<open>User not found\<close>: that answer needs the user row to disappear between the
  validation of the session and the lookup of the user. Each refusal ends the middleware,
  nothing is left suspended. The last clause covers every run of the middleware, whatever the
  store calls do: either the list of sockets is unchanged and one refusal is logged for this
  socket, or no refusal is logged and one socket is added, in no server, in no channel and in
  no room. So a refused handshake creates no socket, and nothing is emitted to anyone either
  way.
\<close>

theorem authentication_failure:
  "(\<not> truthy token \<longrightarrow>
      handshake V c token g
        = (g\<lparr>refused := refused g @ [(c, ''Authentication error'')]\<rparr>, None))
 \<and> (t \<noteq> [] \<and> \<not> V t \<longrightarrow>
      handshake V c (Some t) g
        = (g\<lparr>refused := refused g @ [(c, ''Invalid session'')]\<rparr>, None))
 \<and> (t \<noteq> [] \<and> V t \<and> find (\<lambda>s. ss_token s = t) (sessions (db g)) = None \<longrightarrow>
      run [w1] (handshake V c (Some t) g)
        = g\<lparr>refused := refused g @ [(c, ''Invalid session'')]\<rparr>
      \<and> leftover [w1] (handshake V c (Some t) g) = None)
 \<and> (t \<noteq> [] \<and> V t \<and> \<not> threw w1 \<and> find (\<lambda>s. ss_token s = t) (sessions (db g)) = Some s
      \<and> ss_expiresAt s < now w1 \<longrightarrow>
      socks (run [w1, w2] (handshake V c (Some t) g)) = socks g
      \<and> outbox (run [w1, w2] (handshake V c (Some t) g)) = outbox g
      \<and> refused (run [w1, w2] (handshake V c (Some t) g))
          = refused g @ [(c, ''Invalid session'')]
      \<and> leftover [w1, w2] (handshake V c (Some t) g) = None)
 \<and> (t \<noteq> [] \<and> V t \<and> find (\<lambda>s. ss_token s = t) (sessions (db g)) = Some s
      \<and> find (\<lambda>u. u_id u = ss_userId s) (users (db g)) = None \<longrightarrow>
      socks (run [w1, w2, w3] (handshake V c (Some t) g)) = socks g
      \<and> outbox (run [w1, w2, w3] (handshake V c (Some t) g)) = outbox g
      \<and> refused (run [w1, w2, w3] (handshake V c (Some t) g))
          = refused g @ [(c, ''Invalid session'')]
      \<and> leftover [w1, w2, w3] (handshake V c (Some t) g) = None)
 \<and> (\<not> threw w \<and> find (\<lambda>u. u_id u = uid) (users (db g)) = None \<longrightarrow>
      resume w (A_User c uid) g
        = (g\<lparr>refused := refused g @ [(c, ''User not found'')]\<rparr>, None))
 \<and> (threw w \<longrightarrow>
      resume w (A_User c uid) g
        = (g\<lparr>refused := refused g @ [(c, ''Authentication failed'')]\<rparr>, None))
 \<and> refused (run ws (handshake V c token g)) \<noteq> refused g @ [(c, ''User not found'')]
 \<and> (3 \<le> length ws \<longrightarrow>
      leftover ws (handshake V c token g) = None
      \<and> outbox (run ws (handshake V c token g)) = outbox g
      \<and> ((socks (run ws (handshake V c token g)) = socks g
            \<and> (\<exists>m. refused (run ws (handshake V c token g)) = refused g @ [(c, m)]))
          \<or> (refused (run ws (handshake V c token g)) = refused g
            \<and> (\<exists>x. socks (run ws (handshake V c token g)) = socks g @ [x] \<and> sid x = c
                  \<and> currentServer x = None \<and> currentChannel x = None \<and> rooms x = {}))))"
proof -
  have 1: "\<not> truthy token \<longrightarrow> handshake V c token g
        = (g\<lparr>refused := refused g @ [(c, ''Authentication error'')]\<rparr>, None)"
    by (cases token) (simp_all add: handshake_def reject_def)
  have 2: "t \<noteq> [] \<and> \<not> V t \<longrightarrow> handshake V c (Some t) g
        = (g\<lparr>refused := refused g @ [(c, ''Invalid session'')]\<rparr>, None)"
    by (simp add: handshake_def reject_def)
  have 3: "t \<noteq> [] \<and> V t \<and> find (\<lambda>s. ss_token s = t) (sessions (db g)) = None \<longrightarrow>
      run [w1] (handshake V c (Some t) g)
        = g\<lparr>refused := refused g @ [(c, ''Invalid session'')]\<rparr>
      \<and> leftover [w1] (handshake V c (Some t) g) = None"
    by (simp add: handshake_def validateSession_findUnique_def reject_def)
  have 4: "t \<noteq> [] \<and> V t \<and> \<not> threw w1 \<and> find (\<lambda>s. ss_token s = t) (sessions (db g)) = Some s
      \<and> ss_expiresAt s < now w1 \<longrightarrow>
      socks (run [w1, w2] (handshake V c (Some t) g)) = socks g
      \<and> outbox (run [w1, w2] (handshake V c (Some t) g)) = outbox g
      \<and> refused (run [w1, w2] (handshake V c (Some t) g))
          = refused g @ [(c, ''Invalid session'')]
      \<and> leftover [w1, w2] (handshake V c (Some t) g) = None"
    by (simp add: handshake_def validateSession_findUnique_def validateSession_delete_def
        reject_def)
  have g: "t \<noteq> [] \<and> V t \<and> find (\<lambda>s. ss_token s = t) (sessions (db g)) = Some s
      \<and> find (\<lambda>u. u_id u = ss_userId s) (users (db g)) = None \<longrightarrow>
      socks (run [w1, w2, w3] (handshake V c (Some t) g)) = socks g
      \<and> outbox (run [w1, w2, w3] (handshake V c (Some t) g)) = outbox g
      \<and> refused (run [w1, w2, w3] (handshake V c (Some t) g))
          = refused g @ [(c, ''Invalid session'')]
      \<and> leftover [w1, w2, w3] (handshake V c (Some t) g) = None"
    using gone_is_invalid [of t V g s w1 w2 w3 c] by blast
  have 5: "\<not> threw w \<and> find (\<lambda>u. u_id u = uid) (users (db g)) = None \<longrightarrow>
      resume w (A_User c uid) g
        = (g\<lparr>refused := refused g @ [(c, ''User not found'')]\<rparr>, None)"
    by (simp add: auth_findUnique_def reject_def)
  have f: "threw w \<longrightarrow>
      resume w (A_User c uid) g
        = (g\<lparr>refused := refused g @ [(c, ''Authentication failed'')]\<rparr>, None)"
    by (simp add: auth_findUnique_def reject_def)
  have 6: "3 \<le> length ws \<longrightarrow>
      leftover ws (handshake V c token g) = None
      \<and> outbox (run ws (handshake V c token g)) = outbox g
      \<and> ((socks (run ws (handshake V c token g)) = socks g
            \<and> (\<exists>m. refused (run ws (handshake V c token g)) = refused g @ [(c, m)]))
          \<or> (refused (run ws (handshake V c token g)) = refused g
            \<and> (\<exists>x. socks (run ws (handshake V c token g)) = socks g @ [x] \<and> sid x = c
                  \<and> currentServer x = None \<and> currentChannel x = None \<and> rooms x = {})))"
    using handshake_outcome [of ws V c token g] handshake_finishes [of ws V c token g]
    by (intro impI conjI) (erule (1) meta_mp | simp)+
  show ?thesis by (intro conjI 1 2 3 4 g 5 f atomic_handshake_finds_its_user 6)
qed

theorem authentication_failure_witness:
  "\<not> truthy None \<and> \<not> truthy (Some [])
   \<and> handshake (\<lambda>t. t \<noteq> ''forged'') 7 None demo_boot
       = (demo_boot\<lparr>refused := [(7, ''Authentication error'')]\<rparr>, None)
   \<and> handshake (\<lambda>t. t \<noteq> ''forged'') 7 (Some []) demo_boot
       = (demo_boot\<lparr>refused := [(7, ''Authentication error'')]\<rparr>, None)
   \<and> handshake (\<lambda>t. t \<noteq> ''forged'') 7 (Some ''forged'') demo_boot
       = (demo_boot\<lparr>refused := [(7, ''Invalid session'')]\<rparr>, None)
   \<and> find (\<lambda>s. ss_token s = ''tok-gone'') (sessions (db demo_boot)) = None
   \<and> run [calm] (handshake (\<lambda>t. t \<noteq> ''forged'') 7 (Some ''tok-gone'') demo_boot)
       = demo_boot\<lparr>refused := [(7, ''Invalid session'')]\<rparr>
   \<and> map_option ss_expiresAt (find (\<lambda>s. ss_token s = ''tok-old'') (sessions (db demo_boot)))
       = Some 50
   \<and> now calm = 100
   \<and> refused (run [calm, calm] (handshake (\<lambda>t. t \<noteq> ''forged'') 7 (Some ''tok-old'') demo_boot))
       = [(7, ''Invalid session'')]
   \<and> socks (run [calm, calm] (handshake (\<lambda>t. t \<noteq> ''forged'') 7 (Some ''tok-old'') demo_boot))
       = []
   \<and> map_option ss_userId (find (\<lambda>s. ss_token s = ''tok-alice'') (sessions (db orphaned)))
       = Some ''u1''
   \<and> find (\<lambda>u. u_id u = ''u1'') (users (db orphaned)) = None
   \<and> refused (run [calm, calm, calm]
                (handshake (\<lambda>t. t \<noteq> ''forged'') 7 (Some ''tok-alice'') orphaned))
       = [(7, ''Invalid session'')]
   \<and> socks (run [calm, calm, calm]
              (handshake (\<lambda>t. t \<noteq> ''forged'') 7 (Some ''tok-alice'') orphaned))
       = []
   \<and> leftover [calm, calm] (handshake (\<lambda>t. t \<noteq> ''forged'') 7 (Some ''tok-alice'') demo_boot)
       = Some (A_User 7 ''u1'')
   \<and> resume calm (A_User 7 ''u1'') orphaned
       = (orphaned\<lparr>refused := [(7, ''User not found'')]\<rparr>, None)
   \<and> threw fault
   \<and> resume fault (A_User 7 ''u1'') demo_boot
       = (demo_boot\<lparr>refused := [(7, ''Authentication failed'')]\<rparr>, None)"
proof -
  let ?V = "\<lambda>t. t \<noteq> ''forged''"
  have l: "leftover [calm, calm] (handshake ?V 7 (Some ''tok-alice'') demo_boot)
             = Some (A_User 7 ''u1'')"
    by (simp add: handshake_def validateSession_findUnique_def validateSession_update_def
        demo_defs)
  have f: "find (\<lambda>s. ss_token s = ''tok-gone'') (sessions (db demo_boot)) = None"
    and o: "find (\<lambda>s. ss_token s = ''tok-old'') (sessions (db demo_boot))
              = Some (sessions demo_db ! 2)"
    and x: "ss_expiresAt (sessions demo_db ! 2) = 50"
    and a: "find (\<lambda>s. ss_token s = ''tok-alice'') (sessions (db orphaned))
              = Some (sessions demo_db ! 0)"
    and y: "ss_userId (sessions demo_db ! 0) = ''u1''"
    and u: "find (\<lambda>u. u_id u = ''u1'') (users (db orphaned)) = None"
    and w: "\<not> threw calm" "now calm = 100" "threw fault"
    and i: "refused demo_boot = []" "socks demo_boot = []"
      "refused orphaned = []" "socks orphaned = []"
    by (simp_all add: orphaned_def demo_defs)
  note th = authentication_failure [where V = ?V and c = 7 and ws = "[]"
              and ?w1.0 = calm and ?w2.0 = calm and ?w3.0 = calm and uid = "''u1''"]
  note A = th [where token = None and g = demo_boot and t = "''forged''" and w = calm
               and s = "sessions demo_db ! 2"]
  note B = th [where token = "Some []" and g = demo_boot and t = "''tok-gone''" and w = calm
               and s = "sessions demo_db ! 2"]
  note C = th [where token = None and g = demo_boot and t = "''tok-old''" and w = fault
               and s = "sessions demo_db ! 2"]
  note D = th [where token = None and g = orphaned and t = "''tok-alice''" and w = calm
               and s = "sessions demo_db ! 0"]
  have p1: "handshake ?V 7 None demo_boot
              = (demo_boot\<lparr>refused := [(7, ''Authentication error'')]\<rparr>, None)"
    using A [THEN conjunct1] i by simp
  have p2: "handshake ?V 7 (Some []) demo_boot
              = (demo_boot\<lparr>refused := [(7, ''Authentication error'')]\<rparr>, None)"
    using B [THEN conjunct1] i by simp
  have p3: "handshake ?V 7 (Some ''forged'') demo_boot
              = (demo_boot\<lparr>refused := [(7, ''Invalid session'')]\<rparr>, None)"
    using A [THEN conjunct2, THEN conjunct1] i by simp
  have p4: "run [calm] (handshake ?V 7 (Some ''tok-gone'') demo_boot)
              = demo_boot\<lparr>refused := [(7, ''Invalid session'')]\<rparr>"
    using B [THEN conjunct2, THEN conjunct2, THEN conjunct1] f i by simp
  have p5: "refused (run [calm, calm] (handshake ?V 7 (Some ''tok-old'') demo_boot))
              = [(7, ''Invalid session'')]
          \<and> socks (run [calm, calm] (handshake ?V 7 (Some ''tok-old'') demo_boot)) = []"
    using C [THEN conjunct2, THEN conjunct2, THEN conjunct2, THEN conjunct1] o x w i by simp
  have p6: "refused (run [calm, calm, calm] (handshake ?V 7 (Some ''tok-alice'') orphaned))
              = [(7, ''Invalid session'')]
          \<and> socks (run [calm, calm, calm] (handshake ?V 7 (Some ''tok-alice'') orphaned)) = []"
    using D [THEN conjunct2, THEN conjunct2, THEN conjunct2, THEN conjunct2, THEN conjunct1]
      a y u i by simp
  have p7: "resume calm (A_User 7 ''u1'') orphaned
       = (orphaned\<lparr>refused := [(7, ''User not found'')]\<rparr>, None)"
    using D [THEN conjunct2, THEN conjunct2, THEN conjunct2, THEN conjunct2, THEN conjunct2,
             THEN conjunct1] u w i
    by simp
  have p8: "resume fault (A_User 7 ''u1'') demo_boot
       = (demo_boot\<lparr>refused := [(7, ''Authentication failed'')]\<rparr>, None)"
    using C [THEN conjunct2, THEN conjunct2, THEN conjunct2, THEN conjunct2, THEN conjunct2,
             THEN conjunct2, THEN conjunct1] w i
    by simp
  from p1 p2 p3 p4 p5 p6 p7 p8 l f o x a y u w show ?thesis by simp
qed

text \<open>
  The event loop can reach the refusal \<^verbatim>\<open>User not found\<close>: Alice's session is validated,
  her account is deleted while \<^verbatim>\<open>user.findUnique\<close> is pending, and the lookup misses.
\<close>

lemma user_not_found_is_reachable:
  "\<exists>g ts. reach (\<lambda>t. True) (g, ts)
        \<and> refused g = [(7, ''User not found'')] \<and> socks g = [] \<and> outbox g = []"
proof -
  let ?V = "\<lambda>t::string. True"
  let ?g2 = "run [calm, calm] (handshake ?V 7 (Some ''tok-alice'') demo_boot)"
  have l: "leftover [calm, calm] (handshake ?V 7 (Some ''tok-alice'') demo_boot)
             = Some (A_User 7 ''u1'')"
    by (simp add: handshake_def validateSession_findUnique_def validateSession_update_def
        demo_defs)
  have r0: "reach ?V (demo_boot, [])"
    unfolding demo_boot_def by (rule reach.boot) (simp add: store_ok_def demo_defs)
  have h: "handshake ?V 7 (Some ''tok-alice'') demo_boot = (demo_boot, Some (A_Session 7 ''tok-alice''))"
    by (simp add: handshake_def)
  have r1: "reach ?V (demo_boot, [A_Session 7 ''tok-alice''])"
    using reach.connect [OF r0 _ _ h] by (simp add: pending_def demo_boot_def)
  define s where "s = \<lparr>ss_id = ''x1'', ss_token = ''tok-alice'', ss_userId = ''u1'',
                          ss_expiresAt = 1000, ss_lastUsed = 0\<rparr>"
  define g2 where "g2 = fst (resume calm (A_Update 7 s (Some alice)) demo_boot)"
  have s1: "resume calm (A_Session 7 ''tok-alice'') demo_boot
              = (demo_boot, Some (A_Update 7 s (Some alice)))"
    by (simp add: validateSession_findUnique_def s_def demo_defs)
  have r2: "reach ?V (demo_boot, [A_Update 7 s (Some alice)])"
    using reach.resolve [OF r1 _ s1] by (simp add: pending_def)
  have s2: "resume calm (A_Update 7 s (Some alice)) demo_boot = (g2, Some (A_User 7 ''u1''))"
    and g2: "socks g2 = []" "outbox g2 = []" "refused g2 = []" "store_ok (db g2)"
    by (simp_all add: g2_def validateSession_update_def Let_def store_ok_def s_def demo_defs)
  have r3: "reach ?V (g2, [A_User 7 ''u1''])"
    using reach.resolve [OF r2 _ s2] by (simp add: pending_def)
  have ok: "store_ok ((db g2)\<lparr>users := [bob]\<rparr>)" using g2 by (simp add: store_ok_def)
  have r4: "reach ?V (g2\<lparr>db := (db g2)\<lparr>users := [bob]\<rparr>\<rparr>, [A_User 7 ''u1''])"
    using reach.store [OF r3 ok] .
  have s3: "resume calm (A_User 7 ''u1'') (g2\<lparr>db := (db g2)\<lparr>users := [bob]\<rparr>\<rparr>)
      = (g2\<lparr>db := (db g2)\<lparr>users := [bob]\<rparr>, refused := [(7, ''User not found'')]\<rparr>, None)"
    using g2 by (simp add: auth_findUnique_def reject_def demo_defs)
  have r5: "reach ?V (g2\<lparr>db := (db g2)\<lparr>users := [bob]\<rparr>, refused := [(7, ''User not found'')]\<rparr>, [])"
    using reach.resolve [OF r4 _ s3] by (simp add: pending_def)
  then show ?thesis using g2 by (intro exI [of _ "g2\<lparr>db := (db g2)\<lparr>users := [bob]\<rparr>, refused := [(7, ''User not found'')]\<rparr>"] exI [of _ "[]"]) simp
qed

subsection \<open>No admitted socket carries the id of its user\<close>

lemma untyped_emit [simp]:
  "untyped (emit R ev g) = untyped g" "untyped (emit_self c ev g) = untyped g"
  "untyped (emit_others c r ev g) = untyped g" "untyped (emit_room r ev g) = untyped g"
  "untyped (emit_all ev g) = untyped g"
  by (simp_all add: untyped_def emit_def emit_self_def emit_others_def emit_room_def emit_all_def)

lemma untyped_reject [simp]: "untyped (reject c m g) = untyped g"
  by (simp add: untyped_def reject_def)

lemma untyped_db [simp]: "untyped (g\<lparr>db := d\<rparr>) = untyped g"
  by (simp add: untyped_def)























subsection \<open>The fan-out of send-message\<close>

lemma in_room_tidy:
  assumes "tidy g"
  shows "in_room g (channel_room ch)
           = sid ` {x \<in> set (socks g). connected x \<and> currentChannel x = Some ch}"
proof -
  have "connected x \<and> channel_room ch \<in> rooms x \<longleftrightarrow> connected x \<and> currentChannel x = Some ch"
    if "x \<in> set (socks g)" for x
  proof -
    from that assms have t: "tidy_sock x" by (simp add: tidy_def list_all_iff)
    have "channel_room ch \<in> rooms x \<longleftrightarrow> channel_room ch \<in> subscriptions x"
      by (simp add: subscriptions_def)
    with t show ?thesis
      by (cases "currentChannel x"; cases "connected x") (auto simp: tidy_sock_def)
  qed
  then show ?thesis by (auto simp: in_room_def)
qed

text \<open>
  What the handler does for a socket whose \<^verbatim>\<open>userId\<close> is the id of its user, as the
  interface \<^verbatim>\<open>SocketUser\<close> declares it, when the socket is still in channel \<open>ch\<close> at the
  moment \<^verbatim>\<open>message.create\<close> resolves: a call that throws leaves the store as it is and
  one error goes to the sender alone; otherwise the message is stored and one
  \<^verbatim>\<open>new-message\<close> goes to exactly the connected sockets whose \<^verbatim>\<open>currentChannel\<close> is \<open>ch\<close>,
  the sender among them.
\<close>

lemma send_message_typed:
  assumes "tidy g" and "sock_of g c = Some s" and "connected s" and "currentChannel s = Some ch"
    and "userId (user s) = Some uid"
  shows "(threw w \<or> new_id w \<in> ms_id ` set (messages (db g))
            \<or> uid \<notin> u_id ` set (users (db g)) \<or> ch \<notin> ch_id ` set (channels (db g)) \<longrightarrow>
            resume w (SM_Create c content ty ch) g
              = (g\<lparr>outbox := outbox g @ [({c}, Error ''Failed to send message'')]\<rparr>, None))
       \<and> (\<not> threw w \<and> new_id w \<notin> ms_id ` set (messages (db g))
            \<and> uid \<in> u_id ` set (users (db g)) \<and> ch \<in> ch_id ` set (channels (db g)) \<longrightarrow>
            resume w (SM_Create c content ty ch) g
              = (g\<lparr>db := (db g)\<lparr>messages := messages (db g) @
                       [\<lparr>ms_id = new_id w, ms_content = content, ms_type = ty, ms_userId = uid,
                         ms_channelId = ch, ms_createdAt = now w\<rparr>]\<rparr>,
                   outbox := outbox g @
                     [(sid ` {x \<in> set (socks g). connected x \<and> currentChannel x = Some ch},
                       NewMessage (hydrate ((db g)\<lparr>messages := messages (db g) @
                          [\<lparr>ms_id = new_id w, ms_content = content, ms_type = ty, ms_userId = uid,
                            ms_channelId = ch, ms_createdAt = now w\<rparr>]\<rparr>)
                          \<lparr>ms_id = new_id w, ms_content = content, ms_type = ty, ms_userId = uid,
                            ms_channelId = ch, ms_createdAt = now w\<rparr>))]\<rparr>,
                 Some (SM_Touch c (Some ch)))
            \<and> c \<in> sid ` {x \<in> set (socks g). connected x \<and> currentChannel x = Some ch})"
proof -
  from assms have sid: "sid s = c" and mem: "s \<in> set (socks g)" by (simp_all add: sock_of_SomeD)
  have 2: "threw w \<or> new_id w \<in> ms_id ` set (messages (db g))
            \<or> uid \<notin> u_id ` set (users (db g)) \<or> ch \<notin> ch_id ` set (channels (db g)) \<longrightarrow>
            resume w (SM_Create c content ty ch) g
              = (g\<lparr>outbox := outbox g @ [({c}, Error ''Failed to send message'')]\<rparr>, None)"
    using assms sid
    by (auto simp: send_message_create_def emit_self_connected split: option.splits)
  have room: "in_room g (current_room (Some ch))
                = sid ` {x \<in> set (socks g). connected x \<and> currentChannel x = Some ch}"
    using in_room_tidy [OF assms(1), of ch] by (simp add: current_room_def)
  have 3: "\<not> threw w \<and> new_id w \<notin> ms_id ` set (messages (db g))
            \<and> uid \<in> u_id ` set (users (db g)) \<and> ch \<in> ch_id ` set (channels (db g)) \<longrightarrow>
            resume w (SM_Create c content ty ch) g
              = (g\<lparr>db := (db g)\<lparr>messages := messages (db g) @
                       [\<lparr>ms_id = new_id w, ms_content = content, ms_type = ty, ms_userId = uid,
                         ms_channelId = ch, ms_createdAt = now w\<rparr>]\<rparr>,
                   outbox := outbox g @
                     [(sid ` {x \<in> set (socks g). connected x \<and> currentChannel x = Some ch},
                       NewMessage (hydrate ((db g)\<lparr>messages := messages (db g) @
                          [\<lparr>ms_id = new_id w, ms_content = content, ms_type = ty, ms_userId = uid,
                            ms_channelId = ch, ms_createdAt = now w\<rparr>]\<rparr>)
                          \<lparr>ms_id = new_id w, ms_content = content, ms_type = ty, ms_userId = uid,
                            ms_channelId = ch, ms_createdAt = now w\<rparr>))]\<rparr>,
                 Some (SM_Touch c (Some ch)))
            \<and> c \<in> sid ` {x \<in> set (socks g). connected x \<and> currentChannel x = Some ch}"
  proof (intro impI, elim conjE)
    assume a: "\<not> threw w" "new_id w \<notin> ms_id ` set (messages (db g))"
      "uid \<in> u_id ` set (users (db g))" "ch \<in> ch_id ` set (channels (db g))"
    have "c \<in> sid ` {x \<in> set (socks g). connected x \<and> currentChannel x = Some ch}"
      using mem sid assms by force
    moreover have "resume w (SM_Create c content ty ch) g
        = (g\<lparr>db := (db g)\<lparr>messages := messages (db g) @
                 [\<lparr>ms_id = new_id w, ms_content = content, ms_type = ty, ms_userId = uid,
                      ms_channelId = ch, ms_createdAt = now w\<rparr>]\<rparr>,
             outbox := outbox g @
               [(sid ` {x \<in> set (socks g). connected x \<and> currentChannel x = Some ch},
                 NewMessage (hydrate ((db g)\<lparr>messages := messages (db g) @
                 [\<lparr>ms_id = new_id w, ms_content = content, ms_type = ty, ms_userId = uid,
                      ms_channelId = ch, ms_createdAt = now w\<rparr>]\<rparr>)
                   \<lparr>ms_id = new_id w, ms_content = content, ms_type = ty, ms_userId = uid,
                      ms_channelId = ch, ms_createdAt = now w\<rparr>))]\<rparr>,
           Some (SM_Touch c (Some ch)))"
      using assms sid a room
      by (simp add: send_message_create_def Let_def emit_room_def emit_def)
    ultimately show "resume w (SM_Create c content ty ch) g
              = (g\<lparr>db := (db g)\<lparr>messages := messages (db g) @
                       [\<lparr>ms_id = new_id w, ms_content = content, ms_type = ty, ms_userId = uid,
                         ms_channelId = ch, ms_createdAt = now w\<rparr>]\<rparr>,
                   outbox := outbox g @
                     [(sid ` {x \<in> set (socks g). connected x \<and> currentChannel x = Some ch},
                       NewMessage (hydrate ((db g)\<lparr>messages := messages (db g) @
                          [\<lparr>ms_id = new_id w, ms_content = content, ms_type = ty, ms_userId = uid,
                            ms_channelId = ch, ms_createdAt = now w\<rparr>]\<rparr>)
                          \<lparr>ms_id = new_id w, ms_content = content, ms_type = ty, ms_userId = uid,
                            ms_channelId = ch, ms_createdAt = now w\<rparr>))]\<rparr>,
                 Some (SM_Touch c (Some ch)))
            \<and> c \<in> sid ` {x \<in> set (socks g). connected x \<and> currentChannel x = Some ch}"
      by simp
  qed
  show ?thesis by (intro conjI 2 3)
qed





subsection \<open>The server scope is never read\<close>

lemma is_server_room_server [simp]: "is_server_room (server_room sv)"
  by (simp add: is_server_room_def server_room_def)

lemma is_server_room_channel [simp]: "\<not> is_server_room (channel_room ch)"
  by (simp add: is_server_room_def channel_room_def)

lemma is_server_room_current [simp]: "\<not> is_server_room (current_room cur)"
  by (cases cur) (simp_all add: is_server_room_def current_room_def channel_room_def)

lemma forget_sock_fields [simp]:
  "sid (forget_sock x) = sid x" "user (forget_sock x) = user x"
  "currentChannel (forget_sock x) = currentChannel x" "connected (forget_sock x) = connected x"
  "currentServer (forget_sock x) = None"
  "rooms (forget_sock x) = {r \<in> rooms x. \<not> is_server_room r}"
  by (simp_all add: forget_sock_def)

lemma forget_sock_idem [simp]: "forget_sock (forget_sock x) = forget_sock x"
  by (simp add: forget_sock_def)

lemma forget_scope_fields [simp]:
  "db (forget_scope g) = db g" "outbox (forget_scope g) = outbox g"
  "refused (forget_scope g) = refused g" "socks (forget_scope g) = map forget_sock (socks g)"
  by (simp_all add: forget_scope_def)

lemma forget_scope_updates [simp]:
  "(forget_scope g)\<lparr>db := d\<rparr> = forget_scope (g\<lparr>db := d\<rparr>)"
  "(forget_scope g)\<lparr>outbox := ob\<rparr> = forget_scope (g\<lparr>outbox := ob\<rparr>)"
  "(forget_scope g)\<lparr>refused := rf\<rparr> = forget_scope (g\<lparr>refused := rf\<rparr>)"
  by (simp_all add: forget_scope_def)

lemma forget_scope_idem [simp]: "forget_scope (forget_scope g) = forget_scope g"
  by (simp add: forget_scope_def)


lemma all_connected_forget [simp]: "all_connected (forget_scope g) = all_connected g"
proof -
  have "map sid (filter connected (map forget_sock xs)) = map sid (filter connected xs)" for xs
    by (induction xs) simp_all
  then show ?thesis by (simp add: all_connected_def)
qed

lemma in_room_forget [simp]:
  "\<not> is_server_room r \<Longrightarrow> in_room (forget_scope g) r = in_room g r"
proof -
  assume r: "\<not> is_server_room r"
  have "map sid (filter (\<lambda>s. connected s \<and> r \<in> rooms s) (map forget_sock xs))
        = map sid (filter (\<lambda>s. connected s \<and> r \<in> rooms s) xs)" for xs
    using r by (induction xs) simp_all
  then show ?thesis by (simp add: in_room_def)
qed

lemma forget_emit [simp]:
  "emit R ev (forget_scope g) = forget_scope (emit R ev g)"
  by (simp add: emit_def)

lemma emit_self_forget [simp]:
  "emit_self c ev (forget_scope g) = forget_scope (emit_self c ev g)"
  by (simp add: emit_self_def)

lemma emit_all_forget [simp]:
  "emit_all ev (forget_scope g) = forget_scope (emit_all ev g)"
  by (simp add: emit_all_def)

lemma emit_room_forget [simp]:
  "\<not> is_server_room r \<Longrightarrow> emit_room r ev (forget_scope g) = forget_scope (emit_room r ev g)"
  by (simp add: emit_room_def)

lemma emit_others_forget [simp]:
  "\<not> is_server_room r \<Longrightarrow> emit_others c r ev (forget_scope g) = forget_scope (emit_others c r ev g)"
  by (simp add: emit_others_def)
























lemma scopeless_idle [simp]: "scopeless (forget_scope g, t) = scopeless (g, t)"
  by (simp add: scopeless_def)













subsection \<open>add-reaction\<close>

text \<open>
  The handler of \<^verbatim>\<open>add-reaction\<close> asks the store about reactions only. Whatever the
  membership table holds, a run of the handler does the same.
\<close>

lemma sock_of_fields [simp]:
  "sock_of (g\<lparr>db := d\<rparr>) c = sock_of g c" "sock_of (g\<lparr>outbox := ob\<rparr>) c = sock_of g c"
  "sock_of (g\<lparr>refused := rf\<rparr>) c = sock_of g c"
  by (simp_all add: sock_of_def)

lemma add_reaction_asks_no_membership:
  "run [w1, w2, w3] (start c (AddReaction m e) (g\<lparr>db := (db g)\<lparr>members := anyone\<rparr>\<rparr>))
     = (run [w1, w2, w3] (start c (AddReaction m e) g))
         \<lparr>db := (db (run [w1, w2, w3] (start c (AddReaction m e) g)))\<lparr>members := anyone\<rparr>\<rparr>"
  by (simp add: start_def add_reaction_findFirst_def add_reaction_delete_def
      add_reaction_create_def add_reaction_findMany_def find_reaction_def reactions_of_def
      reaction_out_def emit_self_def emit_all_def emit_def split: option.splits)


text \<open>
  Claim C1 fails on the code. Bob is a member of no server; message \<open>m1\<close> is in channel \<open>c1\<close>
  of server \<open>s1\<close>. Bob's \<^verbatim>\<open>add-reaction\<close> for \<open>m1\<close> is carried out all the same: the reaction
  row is deleted and the new reaction list of \<open>m1\<close> is sent to every connected socket. The
  handlers of \<^verbatim>\<open>join-server\<close> and \<^verbatim>\<open>join-channel\<close> do ask for a membership row first (lines
  81-91 and 120-136); this one does not.
\<close>

theorem add_reaction_without_membership:
  "map (\<lambda>x. (sid x, username (user x), userId (user x))) (socks both_online)
     = [(1, ''alice'', None), (2, ''bob'', None)]
   \<and> find_member (db both_online) (Some (u_id bob)) ''s1'' = None
   \<and> map ms_channelId (filter (\<lambda>m. ms_id m = ''m1'') (messages (db both_online))) = [''c1'']
   \<and> map ch_serverId (filter (\<lambda>ch. ch_id ch = ''c1'') (channels (db both_online))) = [''s1'']
   \<and> reactions (db both_online)
       = [\<lparr>rc_id = ''r1'', rc_userId = u_id bob, rc_messageId = ''m1'', rc_emoji = ''+1''\<rparr>]
   \<and> run [calm, calm, calm] (start 2 (AddReaction ''m1'' ''+1'') both_online)
       = both_online\<lparr>db := (db both_online)\<lparr>reactions := []\<rparr>,
                      outbox := [({1, 2}, ReactionsUpdated ''m1'' [])]\<rparr>
   \<and> leftover [calm, calm, calm] (start 2 (AddReaction ''m1'' ''+1'') both_online) = None"
  by (simp add: both_online_eval segment_defs emit_defs query_defs demo_defs)

text \<open>
  Claim C2 fails on the code for the sockets that the middleware admits. Their
  \<^verbatim>\<open>socket.user.userId\<close> is \<^verbatim>\<open>undefined\<close>, so the lookup of lines 253-259 does not filter by
  user. With Bob's row for \<open>m1\<close> and \<open>+1\<close> in the table, Alice's \<^verbatim>\<open>add-reaction\<close> for the same
  message and emoji does not create a row of hers: it finds Bob's row and deletes it. With no
  row for the message and the emoji, her \<^verbatim>\<open>add-reaction\<close> creates none either:
  \<^verbatim>\<open>reaction.create\<close> has no author and throws, and she receives the error.
\<close>

theorem toggle_ignores_the_identity:
  "map (\<lambda>x. (sid x, username (user x), userId (user x))) (socks both_online)
     = [(1, ''alice'', None), (2, ''bob'', None)]
   \<and> reactions (db both_online)
       = [\<lparr>rc_id = ''r1'', rc_userId = u_id bob, rc_messageId = ''m1'', rc_emoji = ''+1''\<rparr>]
   \<and> u_id alice \<noteq> u_id bob
   \<and> run [calm, calm, calm] (start 1 (AddReaction ''m1'' ''+1'') both_online)
       = both_online\<lparr>db := (db both_online)\<lparr>reactions := []\<rparr>,
                      outbox := [({1, 2}, ReactionsUpdated ''m1'' [])]\<rparr>
   \<and> run [calm, calm, calm] (start 1 (AddReaction ''m1'' ''heart'') both_online)
       = both_online\<lparr>outbox := [({1}, Error ''Failed to add reaction'')]\<rparr>
   \<and> leftover [calm, calm, calm] (start 1 (AddReaction ''m1'' ''+1'') both_online) = None
   \<and> leftover [calm, calm, calm] (start 1 (AddReaction ''m1'' ''heart'') both_online) = None"
  by (simp add: both_online_eval segment_defs emit_defs query_defs demo_defs)


text \<open>
  What the handler does for a socket whose \<^verbatim>\<open>userId\<close> is the id of its user, as the
  interface \<^verbatim>\<open>SocketUser\<close> declares it: on a reaction table that is in order, for a user
  and a message that exist, a run whose calls do not throw removes the pair of this user and the emoji from the reaction set of the
  message if it is there and adds it if it is not, leaves the table in order and every other
  reaction set as it was; a second run brings every reaction set back.
\<close>

lemma reaction_set_list:
  "reaction_set d m
     = set (map (\<lambda>r. (rc_userId r, rc_emoji r)) (filter (\<lambda>r. rc_messageId r = m) (reactions d)))"
  by (auto simp: reaction_set_def)

lemma reaction_set_iff:
  "p \<in> reaction_set d m
     \<longleftrightarrow> (\<exists>r \<in> set (reactions d). rc_messageId r = m \<and> rc_userId r = fst p \<and> rc_emoji r = snd p)"
  by (cases p) (auto simp: reaction_set_def)

lemma add_reaction_typed:
  assumes s: "sock_of g c = Some s" and u: "userId (user s) = Some uid"
    and w: "\<not> threw w1" "\<not> threw w2" "\<not> threw w3"
    and ok: "reactions_ok (db g)" and fresh: "new_id w2 \<notin> rc_id ` set (reactions (db g))"
    and there: "uid \<in> u_id ` set (users (db g))" "m \<in> ms_id ` set (messages (db g))"
  shows "reactions_ok (db (run [w1, w2, w3] (start c (AddReaction m e) g)))
       \<and> reaction_set (db (run [w1, w2, w3] (start c (AddReaction m e) g))) m
           = (if (uid, e) \<in> reaction_set (db g) m then reaction_set (db g) m - {(uid, e)}
              else insert (uid, e) (reaction_set (db g) m))
       \<and> (m' \<noteq> m \<longrightarrow>
            reaction_set (db (run [w1, w2, w3] (start c (AddReaction m e) g))) m'
              = reaction_set (db g) m')
       \<and> users (db (run [w1, w2, w3] (start c (AddReaction m e) g))) = users (db g)
       \<and> messages (db (run [w1, w2, w3] (start c (AddReaction m e) g))) = messages (db g)
       \<and> socks (run [w1, w2, w3] (start c (AddReaction m e) g)) = socks g"
proof -
  let ?g' = "run [w1, w2, w3] (start c (AddReaction m e) g)"
  let ?P = "\<lambda>r. rc_userId r = uid \<and> rc_messageId r = m \<and> rc_emoji r = e"
  from s have sid: "sid s = c" by (simp add: sock_of_SomeD)
  have st: "start c (AddReaction m e) g = (g, Some (AR_Find c m e))"
    using s by (simp add: start_def)
  have fr: "find_reaction (db g) (Some uid) m e = find ?P (reactions (db g))"
    by (simp add: find_reaction_def eq_commute [of uid])
  show ?thesis
  proof (cases "find ?P (reactions (db g))")
    case None
    then have no: "\<forall>r \<in> set (reactions (db g)). \<not> ?P r" by (simp add: find_None_iff)
    let ?new = "\<lparr>rc_id = new_id w2, rc_userId = uid, rc_messageId = m, rc_emoji = e\<rparr>"
    have d: "db ?g' = (db g)\<lparr>reactions := reactions (db g) @ [?new]\<rparr>" and k: "socks ?g' = socks g"
      using s sid u w None fresh there
      by (simp_all add: st fr add_reaction_findFirst_def add_reaction_create_def
          add_reaction_findMany_def emit_all_def emit_def)
    have notin: "(uid, e) \<notin> reaction_set (db g) m"
      using no by (simp add: reaction_set_iff)
    have ok': "reactions_ok (db ?g')"
      using ok fresh no unfolding d by (auto simp: reactions_ok_def)
    have rs: "reaction_set (db ?g') m = insert (uid, e) (reaction_set (db g) m)"
      unfolding d by (simp add: reaction_set_list)
    have other: "m' \<noteq> m \<Longrightarrow> reaction_set (db ?g') m' = reaction_set (db g) m'"
      unfolding d by (simp add: reaction_set_list)
    from ok' rs other notin d k show ?thesis by simp
  next
    case (Some r)
    then have r: "r \<in> set (reactions (db g))" "?P r" by (auto simp: find_Some_iff)
    have d: "db ?g' = (db g)\<lparr>reactions := filter (\<lambda>x. rc_id x \<noteq> rc_id r) (reactions (db g))\<rparr>"
      and k: "socks ?g' = socks g"
      using s sid u w Some r
      by (simp_all add: st fr add_reaction_findFirst_def add_reaction_delete_def
          add_reaction_findMany_def emit_all_def emit_def)
    from ok have di: "distinct (map rc_id (reactions (db g)))"
      and dt: "distinct (map (\<lambda>r. (rc_userId r, rc_messageId r, rc_emoji r)) (reactions (db g)))"
      by (simp_all add: reactions_ok_def)
    have only: "x = r" if "x \<in> set (reactions (db g))" "?P x" for x
      using dt that r by (auto simp: distinct_map inj_on_def)
    have same_id: "x = r" if "x \<in> set (reactions (db g))" "rc_id x = rc_id r" for x
      using di that r by (auto simp: distinct_map inj_on_def)
    have ok': "reactions_ok (db ?g')"
      using di dt unfolding d by (simp add: reactions_ok_def distinct_map_filter)
    have isin: "(uid, e) \<in> reaction_set (db g) m"
      using r by (auto simp: reaction_set_iff)
    have mem: "p \<in> reaction_set (db ?g') k
                 \<longleftrightarrow> p \<in> reaction_set (db g) k \<and> \<not> (k = m \<and> p = (uid, e))" for p k
    proof
      assume "p \<in> reaction_set (db ?g') k"
      then obtain x where x: "x \<in> set (reactions (db g))" "rc_id x \<noteq> rc_id r"
        "rc_messageId x = k" "rc_userId x = fst p" "rc_emoji x = snd p"
        unfolding d by (auto simp: reaction_set_iff)
      then have "x \<noteq> r" by auto
      with only [of x] x have "\<not> (k = m \<and> p = (uid, e))" by auto
      with x show "p \<in> reaction_set (db g) k \<and> \<not> (k = m \<and> p = (uid, e))"
        by (auto simp: reaction_set_iff)
    next
      assume a: "p \<in> reaction_set (db g) k \<and> \<not> (k = m \<and> p = (uid, e))"
      then obtain x where x: "x \<in> set (reactions (db g))"
        "rc_messageId x = k" "rc_userId x = fst p" "rc_emoji x = snd p"
        by (auto simp: reaction_set_iff)
      with a r have "x \<noteq> r" by (cases p) auto
      with same_id [of x] x have "rc_id x \<noteq> rc_id r" by auto
      with x show "p \<in> reaction_set (db ?g') k"
        unfolding d by (auto simp: reaction_set_iff)
    qed
    have rs: "reaction_set (db ?g') m = reaction_set (db g) m - {(uid, e)}"
      using mem [of _ m] by auto
    have other: "m' \<noteq> m \<Longrightarrow> reaction_set (db ?g') m' = reaction_set (db g) m'"
      using mem [of _ m'] by auto
    from ok' rs other isin d k show ?thesis by simp
  qed
qed


lemma add_reaction_twice_typed:
  assumes s: "sock_of g c = Some s" and u: "userId (user s) = Some uid"
    and w: "\<not> threw w1" "\<not> threw w2" "\<not> threw w3" "\<not> threw w4" "\<not> threw w5" "\<not> threw w6"
    and ok: "reactions_ok (db g)" and fresh: "new_id w2 \<notin> rc_id ` set (reactions (db g))"
    and there: "uid \<in> u_id ` set (users (db g))" "m \<in> ms_id ` set (messages (db g))"
    and fresh': "new_id w5 \<notin> rc_id ` set (reactions (db (run [w1, w2, w3] (start c (AddReaction m e) g))))"
  shows "reaction_set
           (db (run [w4, w5, w6]
                  (start c (AddReaction m e) (run [w1, w2, w3] (start c (AddReaction m e) g))))) k
         = reaction_set (db g) k"
proof -
  let ?g1 = "run [w1, w2, w3] (start c (AddReaction m e) g)"
  note one = add_reaction_typed [OF s u w(1,2,3) ok fresh there, of e k]
  from one have s1: "sock_of ?g1 c = Some s" using s by (simp add: sock_of_def)
  from one have ok1: "reactions_ok (db ?g1)" by simp
  from one there have there1: "uid \<in> u_id ` set (users (db ?g1))" "m \<in> ms_id ` set (messages (db ?g1))"
    by simp_all
  note two = add_reaction_typed [OF s1 u w(4,5,6) ok1 fresh' there1, of e k]
  show ?thesis
  proof (cases "k = m")
    case True
    with one two show ?thesis by (cases "(uid, e) \<in> reaction_set (db g) m") auto
  next
    case False
    with one two show ?thesis by simp
  qed
qed

lemma typed_toggle_example:
  "map (\<lambda>r. (rc_userId r, rc_messageId r, rc_emoji r))
     (reactions (db (run [calm, calm, calm] (start 1 (AddReaction ''m1'' ''fire'') typed_gateway))))
     = [(''u2'', ''m1'', ''+1''), (''u1'', ''m1'', ''fire'')]
   \<and> map (\<lambda>r. (rc_userId r, rc_messageId r, rc_emoji r))
       (reactions (db (run [calm, calm, calm] (start 1 (AddReaction ''m1'' ''fire'')
          (run [calm, calm, calm] (start 1 (AddReaction ''m1'' ''fire'') typed_gateway))))))
     = [(''u2'', ''m1'', ''+1'')]"
  by (simp add: segment_defs emit_defs query_defs demo_defs)


end
